theory Spec2Isabelle
  imports Complex_Main "HOL-Library.AList"
begin

section \<open>Common data model\<close>

text \<open>
  Python dictionaries keep their insertion order, so a dictionary is an association list
  with distinct keys: \<open>map_of\<close> reads a key and \<open>AList.update\<close> is the assignment
  \<^verbatim>\<open>d[k] = v\<close> (it replaces the value of a present key in place and appends a new key
  at the end).

  Numpy's float arrays are lists of reals, a two-dimensional array is the list of its rows.
  The arithmetic of the layers is exact, with one exception: the softmax loss, whose properties
  depend on rounding, takes its floating-point operations as a parameter. Where numpy would
  compute an infinity or a NaN (it prints a RuntimeWarning and goes on), the model stops with
  \<open>DivideByZeroWarning\<close>, \<open>OverflowWarning\<close> or \<open>InvalidValueWarning\<close>, since a list of
  reals cannot hold such entries. All other values of \<open>error\<close> are the exceptions
  that Python raises. The shapes an operation accepts are the ones its docstring names; for
  every other shape the model reports \<open>ValueError\<close> (broadcasting between other shapes is
  not modelled). A matrix without rows carries no number of columns, so calls on arrays of
  shape (0, D) are modelled only up to the error they end in.
\<close>

type_synonym 'v dict = "(string \<times> 'v) list"

type_synonym vec = "real list"

type_synonym matrix = "real list list"

datatype error =
    KeyError string
  | IndexError
  | ValueError
  | TypeError
  | AttributeError
  | ZeroDivisionError
  | DivideByZeroWarning
  | OverflowWarning
  | InvalidValueWarning
  | Raised string

definition keys :: "'v dict \<Rightarrow> string set" where
  "keys d = fst ` set d"

text \<open>\<^verbatim>\<open>m.shape == (n, d)\<close> for a list of rows.\<close>

definition has_shape :: "nat \<Rightarrow> nat \<Rightarrow> matrix \<Rightarrow> bool" where
  "has_shape n d m \<longleftrightarrow> length m = n \<and> list_all (\<lambda>r. length r = d) m"

text \<open>The second entry of \<^verbatim>\<open>m.shape\<close>; an array without rows reads as having no columns.\<close>

definition ncols :: "matrix \<Rightarrow> nat" where
  "ncols m = (case m of [] \<Rightarrow> 0 | r # _ \<Rightarrow> length r)"

text \<open>\<^verbatim>\<open>np.sum(m, axis=0)\<close> of an array with \<open>d\<close> columns.\<close>

definition colsum :: "nat \<Rightarrow> matrix \<Rightarrow> vec" where
  "colsum d m = map (\<lambda>j. sum_list (map (\<lambda>r. r ! j) m)) [0..<d]"

text \<open>
  An operation between an array of shape (N, D) and one of shape (D,), applied row by row,
  and one between two arrays of shape (N, D).
\<close>

definition rowwise :: "(real \<Rightarrow> real \<Rightarrow> real) \<Rightarrow> matrix \<Rightarrow> vec \<Rightarrow> matrix" where
  "rowwise f m v = map (\<lambda>r. map2 f r v) m"

definition elementwise :: "(real \<Rightarrow> real \<Rightarrow> real) \<Rightarrow> matrix \<Rightarrow> matrix \<Rightarrow> matrix" where
  "elementwise f a b = map2 (map2 f) a b"

section \<open>\<^verbatim>\<open>layers.py\<close>\<close>

subsection \<open>Affine layer\<close>

text \<open>
  \<^verbatim>\<open>affine_forward(x, w, b)\<close> for an input that is already a matrix of shape (N, D), so
  that the reshape to rows changes nothing; it raises for an input without examples. A weight
  matrix without rows (an input dimension of 0) has no shape (0, M) in this representation and
  is reported as an error as well.
\<close>

definition affine_forward :: "matrix \<Rightarrow> matrix \<Rightarrow> vec \<Rightarrow> error + (matrix \<times> (matrix \<times> matrix \<times> vec))" where
  "affine_forward x w b =
     (if length x = 0 \<or> length w = 0 then Inl ValueError
      else if \<not> (has_shape (length x) (length w) x \<and> has_shape (length w) (length b) w)
      then Inl ValueError
      else Inr (map (\<lambda>r. map (\<lambda>j. sum_list (map2 (*) r (map (\<lambda>wr. wr ! j) w)) + b ! j)
                            [0..<length b]) x,
                (x, w, b)))"

definition affine_backward :: "matrix \<Rightarrow> (matrix \<times> matrix \<times> vec) \<Rightarrow> error + (matrix \<times> matrix \<times> vec)" where
  "affine_backward dout cache =
     (case cache of (x, w, b) \<Rightarrow>
        if length x = 0 \<or> length w = 0 then Inl ValueError
        else if \<not> (has_shape (length x) (length w) x \<and> has_shape (length w) (ncols w) w
                   \<and> has_shape (length x) (ncols w) dout)
        then Inl ValueError
        else
          (let dw = map (\<lambda>k. map (\<lambda>j. sum_list (map2 (\<lambda>xr dr. xr ! k * dr ! j) x dout))
                                [0..<ncols w]) [0..<length w];
               db = colsum (ncols w) dout;
               dx = map (\<lambda>dr. map (\<lambda>wr. sum_list (map2 (*) dr wr)) w) dout
           in Inr (dx, dw, db)))"

subsection \<open>ReLU\<close>

definition relu_forward :: "matrix \<Rightarrow> matrix \<times> matrix" where
  "relu_forward x = (map (map (\<lambda>v. v * (if v > 0 then 1 else 0))) x, x)"

text \<open>
  \<^verbatim>\<open>dx = np.array(dout, copy=True); dx[x <= 0] = 0\<close>: the boolean index must have the shape
  of the array it indexes.
\<close>

definition relu_backward :: "matrix \<Rightarrow> matrix \<Rightarrow> error + matrix" where
  "relu_backward dout cache =
     (let x = cache in
      if map length x \<noteq> map length dout then Inl IndexError
      else Inr (map2 (map2 (\<lambda>d v. if v \<le> 0 then 0 else d)) dout x))"

subsection \<open>Batch normalization\<close>

text \<open>The values held by the \<^verbatim>\<open>bn_param\<close> and \<^verbatim>\<open>dropout_param\<close> dictionaries.\<close>

datatype pval = Str string | Num real | Vec vec

text \<open>The tuple \<^verbatim>\<open>cache\<close> of the training-time forward pass, under the names the backward pass gives its entries.\<close>

record bn_cache =
  c_xout :: matrix
  c_x_norm :: matrix
  c_beta :: vec
  c_gamma :: vec
  c_x_minus_mean :: matrix
  c_ivar :: vec
  c_sqrtvar :: vec
  c_var :: vec
  c_eps :: real

text \<open>\<^verbatim>\<open>d.get(k, default)\<close>\<close>

definition dict_get :: "'v dict \<Rightarrow> string \<Rightarrow> 'v \<Rightarrow> 'v" where
  "dict_get d k dflt = (case map_of d k of None \<Rightarrow> dflt | Some v \<Rightarrow> v)"

text \<open>The training-time branch, from \<^verbatim>\<open>sample_mean\<close> to \<^verbatim>\<open>cache\<close>.\<close>

definition batchnorm_train ::
  "matrix \<Rightarrow> vec \<Rightarrow> vec \<Rightarrow> real \<Rightarrow> real \<Rightarrow> vec \<Rightarrow> vec \<Rightarrow> error + (matrix \<times> bn_cache \<times> vec \<times> vec)" where
  "batchnorm_train x g b eps momentum running_mean running_var =
     (let N = length x; D = ncols x in
      if N = 0 then Inl ZeroDivisionError
      else if \<not> (has_shape N D x \<and> length g = D \<and> length b = D
                 \<and> length running_mean = D \<and> length running_var = D)
      then Inl ValueError
      else
        (let sample_mean = map (\<lambda>s. s / real N) (colsum D x);
             x_minus_mean = rowwise (-) x sample_mean;
             sq = map (map (\<lambda>v. v ^ 2)) x_minus_mean;
             var = map (\<lambda>s. 1 / real N * s) (colsum D sq)
         in if list_ex (\<lambda>v. v + eps < 0) var then Inl InvalidValueWarning
            else if list_ex (\<lambda>v. v + eps = 0) var then Inl DivideByZeroWarning
            else
              (let sqrtvar = map (\<lambda>v. sqrt (v + eps)) var;
                   ivar = map (\<lambda>s. 1 / s) sqrtvar;
                   x_norm = rowwise (*) x_minus_mean ivar;
                   gammax = rowwise (\<lambda>xn gm. gm * xn) x_norm g;
                   out = rowwise (+) gammax b;
                   running_var' = map2 (\<lambda>rv v. momentum * rv + (1 - momentum) * v) running_var var;
                   running_mean' = map2 (\<lambda>rm m. momentum * rm + (1 - momentum) * m) running_mean sample_mean
               in Inr (out,
                       \<lparr> c_xout = out, c_x_norm = x_norm, c_beta = b, c_gamma = g,
                         c_x_minus_mean = x_minus_mean, c_ivar = ivar, c_sqrtvar = sqrtvar,
                         c_var = var, c_eps = eps \<rparr>,
                       running_mean', running_var'))))"

text \<open>
  The test-time branch:
  \<^verbatim>\<open>x = (x - running_mean) / np.sqrt(running_var); out = x * gamma + beta\<close>.
\<close>

definition batchnorm_test :: "matrix \<Rightarrow> vec \<Rightarrow> vec \<Rightarrow> vec \<Rightarrow> vec \<Rightarrow> error + matrix" where
  "batchnorm_test x g b running_mean running_var =
     (let N = length x; D = ncols x in
      if \<not> (has_shape N D x \<and> length g = D \<and> length b = D
             \<and> length running_mean = D \<and> length running_var = D)
      then Inl ValueError
      else if list_ex (\<lambda>v. v < 0) running_var then Inl InvalidValueWarning
      else if N \<noteq> 0 \<and> list_ex (\<lambda>v. sqrt v = 0) running_var then Inl DivideByZeroWarning
      else
        (let x' = rowwise (\<lambda>v d. v / d) (rowwise (-) x running_mean) (map sqrt running_var)
         in Inr (rowwise (+) (rowwise (*) x' g) b)))"

text \<open>
  \<^verbatim>\<open>batchnorm_forward(x, gamma, beta, bn_param)\<close>. The third component of the result is
  \<^verbatim>\<open>bn_param\<close> after the call, which stores the running averages back into it.
\<close>

definition batchnorm_forward ::
  "matrix \<Rightarrow> vec \<Rightarrow> vec \<Rightarrow> pval dict \<Rightarrow> error + (matrix \<times> bn_cache option \<times> pval dict)" where
  "batchnorm_forward x g b bn_param =
     (case map_of bn_param ''mode'' of
        None \<Rightarrow> Inl (KeyError ''mode'')
      | Some mode \<Rightarrow>
         (let eps = dict_get bn_param ''eps'' (Num (1 / 100000));
              momentum = dict_get bn_param ''momentum'' (Num (9 / 10));
              D = ncols x;
              running_mean = dict_get bn_param ''running_mean'' (Vec (replicate D 0));
              running_var = dict_get bn_param ''running_var'' (Vec (replicate D 0))
          in
            if mode = Str ''train'' then
              (case (eps, momentum, running_mean, running_var) of
                 (Num e, Num m, Vec rm, Vec rv) \<Rightarrow>
                   (case batchnorm_train x g b e m rm rv of
                      Inl err \<Rightarrow> Inl err
                    | Inr (out, cache, rm', rv') \<Rightarrow>
                        Inr (out, Some cache,
                             AList.update ''running_var'' (Vec rv')
                               (AList.update ''running_mean'' (Vec rm') bn_param)))
               | _ \<Rightarrow> Inl TypeError)
            else if mode = Str ''test'' then
              (case (running_mean, running_var) of
                 (Vec rm, Vec rv) \<Rightarrow>
                   (case batchnorm_test x g b rm rv of
                      Inl err \<Rightarrow> Inl err
                    | Inr out \<Rightarrow>
                        Inr (out, None,
                             AList.update ''running_var'' (Vec rv)
                               (AList.update ''running_mean'' (Vec rm) bn_param)))
               | _ \<Rightarrow> Inl TypeError)
            else Inl ValueError))"

text \<open>
  \<^verbatim>\<open>batchnorm_backward(dout, cache)\<close>, step by step as in the source. The cache of a test-time
  forward pass is \<^verbatim>\<open>None\<close> and cannot be unpacked.
\<close>

definition batchnorm_backward :: "matrix \<Rightarrow> bn_cache option \<Rightarrow> error + (matrix \<times> vec \<times> vec)" where
  "batchnorm_backward dout cache =
     (case cache of
        None \<Rightarrow> Inl TypeError
      | Some c \<Rightarrow>
         (let N = length dout; D = ncols dout in
          if \<not> (has_shape N D dout \<and> has_shape N D (c_xout c) \<and> length (c_gamma c) = D
                 \<and> has_shape N D (c_x_minus_mean c) \<and> length (c_ivar c) = D
                 \<and> length (c_sqrtvar c) = D \<and> length (c_var c) = D)
          then Inl ValueError
          else if N = 0 then Inl ZeroDivisionError
          else if list_ex (\<lambda>v. v + c_eps c < 0) (c_var c) then Inl InvalidValueWarning
          else if list_ex (\<lambda>s. s ^ 2 = 0) (c_sqrtvar c)
                \<or> list_ex (\<lambda>v. 2 * sqrt (v + c_eps c) = 0) (c_var c) then Inl DivideByZeroWarning
          else
            (let dbeta = colsum D dout;
                 dgammax = dout;
                 dgamma = colsum D (elementwise (*) dgammax (c_xout c));
                 dx_norm = rowwise (\<lambda>d gm. gm * d) dgammax (c_gamma c);
                 divar = colsum D (elementwise (*) dx_norm (c_x_minus_mean c));
                 dminus_mean_1 = rowwise (*) dx_norm (c_ivar c);
                 dsqrtvar = map2 (\<lambda>di s. di * (- 1 / (s ^ 2))) divar (c_sqrtvar c);
                 dvar = map2 (\<lambda>ds v. ds * (1 / (2 * sqrt (v + c_eps c)))) dsqrtvar (c_var c);
                 dsq = replicate N (map (\<lambda>dv. 1 / real N * 1 * dv) dvar);
                 dminus_mean_2 = elementwise (\<lambda>xm d. 2 * xm * d) (c_x_minus_mean c) dsq;
                 dx1 = elementwise (+) dminus_mean_2 dminus_mean_1;
                 dsample_mean = map uminus (colsum D (elementwise (+) dminus_mean_2 dminus_mean_1));
                 dx2 = replicate N (map (\<lambda>dm. 1 / real N * 1 * dm) dsample_mean);
                 dx = elementwise (+) dx1 dx2
             in Inr (dx, dgamma, dbeta))))"

subsection \<open>Dropout\<close>

text \<open>
  \<^verbatim>\<open>dropout_forward(x, dropout_param)\<close>; \<open>rand\<close> is the array that
  \<^verbatim>\<open>np.random.rand(*x.shape)\<close> returns in this call (after the re-seeding, if a seed is set).
\<close>

definition dropout_forward :: "matrix \<Rightarrow> pval dict \<Rightarrow> matrix \<Rightarrow> error + (matrix \<times> (pval dict \<times> matrix option))" where
  "dropout_forward x dropout_param rand =
     (case map_of dropout_param ''p'' of
        None \<Rightarrow> Inl (KeyError ''p'')
      | Some p \<Rightarrow>
         (case map_of dropout_param ''mode'' of
            None \<Rightarrow> Inl (KeyError ''mode'')
          | Some mode \<Rightarrow>
              if mode = Str ''train'' then
                (case p of
                   Num pr \<Rightarrow>
                     if map length rand \<noteq> map length x then Inl ValueError
                     else if 1 - pr = 0 \<and> list_ex (\<lambda>r. r \<noteq> []) rand then Inl DivideByZeroWarning
                     else
                       (let dmask = map (map (\<lambda>u. (if u \<ge> pr then 1 else 0) / (1 - pr))) rand
                        in Inr (elementwise (*) x dmask, (dropout_param, Some dmask)))
                 | _ \<Rightarrow> Inl TypeError)
              else if mode = Str ''test'' then Inr (x, (dropout_param, None))
              else Inl AttributeError))"

text \<open>\<^verbatim>\<open>dropout_backward(dout, cache)\<close>; for any other mode string it returns \<^verbatim>\<open>None\<close>.\<close>

definition dropout_backward :: "matrix \<Rightarrow> (pval dict \<times> matrix option) \<Rightarrow> error + matrix option" where
  "dropout_backward dout cache =
     (case cache of (dropout_param, dmask) \<Rightarrow>
        (case map_of dropout_param ''mode'' of
           None \<Rightarrow> Inl (KeyError ''mode'')
         | Some mode \<Rightarrow>
             if mode = Str ''train'' then
               (case dmask of
                  None \<Rightarrow> Inl TypeError
                | Some m \<Rightarrow>
                    if map length m \<noteq> map length dout then Inl ValueError
                    else Inr (Some (elementwise (*) dout m)))
             else if mode = Str ''test'' then Inr (Some dout)
             else Inr None))"

subsection \<open>Softmax loss\<close>

text \<open>
  The properties of \<^verbatim>\<open>softmax_loss\<close> depend on how its floating-point operations round, so
  this function is not modelled over exact reals: it takes the arithmetic of the array's dtype
  as a parameter. An arithmetic gives the result of each operation the function performs on
  floats: the subtraction and the division of two numbers, \<^verbatim>\<open>np.exp\<close>, \<^verbatim>\<open>np.log\<close> and the
  reduction \<^verbatim>\<open>np.sum\<close> of a one-dimensional run of numbers. An operation whose result
  is an infinity or a NaN returns the warning numpy gives for it. Taking the maximum and negating
  a number are exact in every floating-point format.
\<close>

record arith =
  a_sub :: "real \<Rightarrow> real \<Rightarrow> error + real"
  a_div :: "real \<Rightarrow> real \<Rightarrow> error + real"
  a_exp :: "real \<Rightarrow> error + real"
  a_log :: "real \<Rightarrow> error + real"
  a_sum :: "real list \<Rightarrow> error + real"

text \<open>An array operation applies the operation to every entry; the array is finite when every entry is.\<close>

fun collect :: "(error + 'a) list \<Rightarrow> error + 'a list" where
  "collect [] = Inr []"
| "collect (r # rs) =
     (case r of
        Inl e \<Rightarrow> Inl e
      | Inr v \<Rightarrow> (case collect rs of Inl e \<Rightarrow> Inl e | Inr vs \<Rightarrow> Inr (v # vs)))"

text \<open>
  One row of
  \<^verbatim>\<open>probs = np.exp(x - np.max(x, axis=1, keepdims=True)); probs /= np.sum(probs, axis=1, keepdims=True)\<close>
\<close>

definition softmax_row :: "arith \<Rightarrow> vec \<Rightarrow> error + vec" where
  "softmax_row ar r =
     (case collect (map (\<lambda>v. a_sub ar v (Max (set r))) r) of Inl e \<Rightarrow> Inl e | Inr ds \<Rightarrow>
      case collect (map (a_exp ar) ds) of Inl e \<Rightarrow> Inl e | Inr es \<Rightarrow>
      case a_sum ar es of Inl e \<Rightarrow> Inl e | Inr s \<Rightarrow>
        collect (map (\<lambda>u. a_div ar u s) es))"

definition softmax_probs :: "arith \<Rightarrow> matrix \<Rightarrow> error + matrix" where
  "softmax_probs ar x = collect (map (softmax_row ar) x)"

text \<open>An index \<open>j\<close> into an axis of length \<open>c\<close>: negative indices count from the end.\<close>

definition np_index :: "nat \<Rightarrow> int \<Rightarrow> nat option" where
  "np_index c j =
     (if 0 \<le> j \<and> j < int c then Some (nat j)
      else if - int c \<le> j \<and> j < 0 then Some (nat (j + int c))
      else None)"

text \<open>
  The pairs of indices that \<^verbatim>\<open>[np.arange(N), y]\<close> selects: the two index arrays are
  broadcast against each other, which works for equal lengths and when one of them has length 1.
\<close>

definition index_pairs :: "nat \<Rightarrow> int list \<Rightarrow> (nat \<times> int) list option" where
  "index_pairs n y =
     (if length y = n then Some (zip [0..<n] y)
      else if length y = 1 then Some (map (\<lambda>i. (i, hd y)) [0..<n])
      else if n = 1 then Some (map (\<lambda>j. (0, j)) y)
      else None)"

fun resolve_pairs :: "nat \<Rightarrow> (nat \<times> int) list \<Rightarrow> (nat \<times> nat) list option" where
  "resolve_pairs c [] = Some []"
| "resolve_pairs c ((i, j) # ps) =
     (case np_index c j of
        None \<Rightarrow> None
      | Some k \<Rightarrow> (case resolve_pairs c ps of None \<Rightarrow> None | Some qs \<Rightarrow> Some ((i, k) # qs)))"

text \<open>
  \<^verbatim>\<open>loss = -np.sum(np.log(probs[np.arange(N), y])) / N\<close> for the resolved index pairs. An
  infinite or undefined loss is a value the function returns, so it is a result of its own.
\<close>

definition softmax_data_loss :: "arith \<Rightarrow> matrix \<Rightarrow> (nat \<times> nat) list \<Rightarrow> nat \<Rightarrow> error + real" where
  "softmax_data_loss ar probs qs N =
     (case collect (map (\<lambda>(i, k). a_log ar (probs ! i ! k)) qs) of Inl e \<Rightarrow> Inl e | Inr ls \<Rightarrow>
      case a_sum ar ls of Inl e \<Rightarrow> Inl e | Inr t \<Rightarrow>
        a_div ar (- t) (real N))"

text \<open>
  One entry of \<^verbatim>\<open>dx = probs.copy(); dx[np.arange(N), y] -= 1; dx /= N\<close>. The in-place
  subtraction takes 1 off once at every selected position and leaves the other entries as
  they are.
\<close>

definition softmax_dx_entry :: "arith \<Rightarrow> matrix \<Rightarrow> (nat \<times> nat) list \<Rightarrow> nat \<Rightarrow> nat \<Rightarrow> nat \<Rightarrow> error + real" where
  "softmax_dx_entry ar probs qs N i k =
     (case (if (i, k) \<in> set qs then a_sub ar (probs ! i ! k) 1 else Inr (probs ! i ! k)) of
        Inl e \<Rightarrow> Inl e
      | Inr v \<Rightarrow> a_div ar v (real N))"

text \<open>
  \<^verbatim>\<open>softmax_loss(x, y)\<close>. The maximum of a row without entries raises. The result pairs the
  loss, which may be infinite or undefined, with \<^verbatim>\<open>dx\<close>.
\<close>

definition softmax_loss :: "arith \<Rightarrow> matrix \<Rightarrow> int list \<Rightarrow> error + ((error + real) \<times> matrix)" where
  "softmax_loss ar x y =
     (let N = length x; C = ncols x in
      if \<not> has_shape N C x then Inl ValueError
      else if N \<noteq> 0 \<and> C = 0 then Inl ValueError
      else
        (case softmax_probs ar x of
           Inl e \<Rightarrow> Inl e
         | Inr probs \<Rightarrow>
            (case index_pairs N y of
               None \<Rightarrow> Inl IndexError
             | Some ps \<Rightarrow>
                (case resolve_pairs C ps of
                   None \<Rightarrow> Inl IndexError
                 | Some qs \<Rightarrow>
                    (case collect (map (\<lambda>i. collect (map (softmax_dx_entry ar probs qs N i) [0..<C]))
                                       [0..<N]) of
                       Inl e \<Rightarrow> Inl e
                     | Inr dx \<Rightarrow> Inr (softmax_data_loss ar probs qs N, dx))))))"

text \<open>The loss and \<^verbatim>\<open>dx\<close> where the loss is a finite number, for the callers that go on computing with it.\<close>

definition finite_loss :: "error + ((error + real) \<times> matrix) \<Rightarrow> error + (real \<times> matrix)" where
  "finite_loss r =
     (case r of
        Inl e \<Rightarrow> Inl e
      | Inr (Inl e, dx) \<Rightarrow> Inl e
      | Inr (Inr l, dx) \<Rightarrow> Inr (l, dx))"

subsection \<open>Two arithmetics\<close>

text \<open>
  Exact arithmetic: no operation rounds. All layers other than the softmax loss are modelled
  in it, and the networks below call the softmax loss with it.
\<close>

definition exact_arith :: arith where
  "exact_arith =
     \<lparr> a_sub = (\<lambda>a b. Inr (a - b)),
       a_div = (\<lambda>a b. if b = 0
                       then Inl (if a = 0 then InvalidValueWarning else DivideByZeroWarning)
                       else Inr (a / b)),
       a_exp = (\<lambda>v. Inr (exp v)),
       a_log = (\<lambda>p. if p < 0 then Inl InvalidValueWarning
                     else if p = 0 then Inl DivideByZeroWarning
                     else Inr (ln p)),
       a_sum = (\<lambda>vs. Inr (sum_list vs)) \<rparr>"

text \<open>
  IEEE 754 binary64, the arithmetic of numpy's \<^verbatim>\<open>float64\<close>: a real number is rounded to the
  nearest number with 53 significant bits whose exponent is at least -1022, a tie going to the
  neighbour with an even last bit; a rounded magnitude of \<open>2 ^ 1024\<close> or more is an overflow.
\<close>

definition pow2 :: "int \<Rightarrow> real" where
  "pow2 e = (if 0 \<le> e then 2 ^ nat e else 1 / 2 ^ nat (- e))"

definition round_half_even :: "real \<Rightarrow> int" where
  "round_half_even v =
     (let f = \<lfloor>v\<rfloor> in
      if v - of_int f < 1 / 2 then f
      else if 1 / 2 < v - of_int f then f + 1
      else if even f then f else f + 1)"

definition double_round :: "real \<Rightarrow> error + real" where
  "double_round r =
     (if r = 0 then Inr 0
      else
        (let e = max \<lfloor>log 2 \<bar>r\<bar>\<rfloor> (- 1022);
             q = of_int (round_half_even (r / pow2 (e - 52))) * pow2 (e - 52)
         in if pow2 1024 \<le> \<bar>q\<bar> then Inl OverflowWarning else Inr q))"

text \<open>The sum of a run of numbers added one after the other, starting from 0.\<close>

fun sequential_sum :: "real \<Rightarrow> real list \<Rightarrow> error + real" where
  "sequential_sum acc [] = Inr acc"
| "sequential_sum acc (v # vs) =
     (case double_round (acc + v) of Inl e \<Rightarrow> Inl e | Inr acc' \<Rightarrow> sequential_sum acc' vs)"

text \<open>
  Subtraction and division are correctly rounded, as IEEE 754 requires. For \<^verbatim>\<open>np.exp\<close>,
  \<^verbatim>\<open>np.log\<close> and \<^verbatim>\<open>np.sum\<close> this arithmetic takes the correctly rounded function and the
  sum from left to right; numpy's kernels may differ from that in the last bit of an
  exponential or a logarithm and in the order in which they add eight or more numbers. They
  agree with it wherever the exponential is taken at 0 and fewer than eight numbers are added.
\<close>

definition double_arith :: arith where
  "double_arith =
     \<lparr> a_sub = (\<lambda>a b. double_round (a - b)),
       a_div = (\<lambda>a b. if b = 0
                       then Inl (if a = 0 then InvalidValueWarning else DivideByZeroWarning)
                       else double_round (a / b)),
       a_exp = (\<lambda>v. double_round (exp v)),
       a_log = (\<lambda>p. if p < 0 then Inl InvalidValueWarning
                     else if p = 0 then Inl DivideByZeroWarning
                     else double_round (ln p)),
       a_sum = sequential_sum 0 \<rparr>"

subsection \<open>Concrete batch-normalization calls\<close>

text \<open>
  A training-time call on the batch \<^verbatim>\<open>[[1], [-1]]\<close> with \<^verbatim>\<open>gamma = [2]\<close>,
  \<^verbatim>\<open>beta = [1]\<close> and \<^verbatim>\<open>eps = 3\<close> (all intermediate values are exact in binary
  floating point as well), the cache it produces, and the parameters of a test-time call on a
  layer that has never been trained.
\<close>

definition bn_train_param :: "pval dict" where
  "bn_train_param = [(''mode'', Str ''train''), (''eps'', Num 3)]"

definition bn_train_cache :: bn_cache where
  "bn_train_cache =
     \<lparr> c_xout = [[2], [0]], c_x_norm = [[1 / 2], [- 1 / 2]], c_beta = [1], c_gamma = [2],
       c_x_minus_mean = [[1], [- 1]], c_ivar = [1 / 2], c_sqrtvar = [2], c_var = [1], c_eps = 3 \<rparr>"

definition bn_test_param :: "pval dict" where
  "bn_test_param = [(''mode'', Str ''test''), (''eps'', Num (1 / 100000))]"

section \<open>\<^verbatim>\<open>classifiers/fc_net.py\<close>\<close>

subsection \<open>Parameter stores and their keys\<close>

text \<open>A parameter or a gradient is a one-dimensional array (bias, scale, shift) or a matrix (weight).\<close>

datatype ndarray = V vec | M matrix

definition get_matrix :: "ndarray dict \<Rightarrow> string \<Rightarrow> error + matrix" where
  "get_matrix d k =
     (case map_of d k of None \<Rightarrow> Inl (KeyError k) | Some (M m) \<Rightarrow> Inr m | Some (V v) \<Rightarrow> Inl ValueError)"

definition get_vector :: "ndarray dict \<Rightarrow> string \<Rightarrow> error + vec" where
  "get_vector d k =
     (case map_of d k of None \<Rightarrow> Inl (KeyError k) | Some (V v) \<Rightarrow> Inr v | Some (M m) \<Rightarrow> Inl ValueError)"

text \<open>Python's \<^verbatim>\<open>str(n)\<close> for a natural number, and the key \<^verbatim>\<open>s + str(n)\<close>.\<close>

definition digit_char :: "nat \<Rightarrow> char" where
  "digit_char d = ''0123456789'' ! d"

fun str_nat :: "nat \<Rightarrow> string" where
  "str_nat n = (if n < 10 then [digit_char n] else str_nat (n div 10) @ [digit_char (n mod 10)])"

definition pname :: "string \<Rightarrow> nat \<Rightarrow> string" where
  "pname s n = s @ str_nat n"

text \<open>\<^verbatim>\<open>np.sum(W ** 2)\<close> and \<^verbatim>\<open>dW += reg * W\<close>\<close>

definition sum_squares :: "matrix \<Rightarrow> real" where
  "sum_squares W = sum_list (map (\<lambda>r. sum_list (map (\<lambda>v. v ^ 2) r)) W)"

definition add_reg :: "real \<Rightarrow> matrix \<Rightarrow> matrix \<Rightarrow> matrix" where
  "add_reg r dW W = elementwise (\<lambda>d w. d + r * w) dW W"

text \<open>
  What \<^verbatim>\<open>loss\<close> returns: the scores at test time, the loss and the gradients at training
  time. The networks are modelled in exact arithmetic throughout, so they call the softmax loss
  with \<open>exact_arith\<close>.
\<close>

datatype loss_result = Scores matrix | LossGrads real "ndarray dict"

subsection \<open>\<^verbatim>\<open>layer_utils.py\<close>\<close>

text \<open>
  Modelled from the spec: \<^verbatim>\<open>affine_relu_forward\<close> and \<^verbatim>\<open>affine_relu_backward\<close> of
  \<^verbatim>\<open>dl4cv/layer_utils.py\<close>, which is not among the sources. The spec describes the two-layer
  network as affine, then ReLU, then affine, each forward call returning its output and a cache
  that only the matching backward call consumes; so the forward helper is the affine layer
  followed by the ReLU with both caches paired, and the backward helper undoes the ReLU and
  then the affine layer.
\<close>

definition affine_relu_forward ::
  "matrix \<Rightarrow> matrix \<Rightarrow> vec \<Rightarrow> error + (matrix \<times> ((matrix \<times> matrix \<times> vec) \<times> matrix))" where
  "affine_relu_forward x w b =
     (case affine_forward x w b of
        Inl e \<Rightarrow> Inl e
      | Inr (a, fc_cache) \<Rightarrow>
          (case relu_forward a of (out, relu_cache) \<Rightarrow> Inr (out, (fc_cache, relu_cache))))"

definition affine_relu_backward ::
  "matrix \<Rightarrow> ((matrix \<times> matrix \<times> vec) \<times> matrix) \<Rightarrow> error + (matrix \<times> matrix \<times> vec)" where
  "affine_relu_backward dout cache =
     (case cache of (fc_cache, relu_cache) \<Rightarrow>
        (case relu_backward dout relu_cache of
           Inl e \<Rightarrow> Inl e
         | Inr da \<Rightarrow> affine_backward da fc_cache))"

subsection \<open>\<^verbatim>\<open>TwoLayerNet\<close>\<close>

record two_layer_net =
  tl_params :: "ndarray dict"
  tl_reg :: real

text \<open>
  \<^verbatim>\<open>TwoLayerNet.__init__\<close>; \<open>normal1\<close> and \<open>normal2\<close> are the two arrays drawn by
  \<^verbatim>\<open>np.random.normal\<close>, which raises for a negative scale.
\<close>

definition two_layer_init :: "matrix \<Rightarrow> matrix \<Rightarrow> nat \<Rightarrow> nat \<Rightarrow> real \<Rightarrow> real \<Rightarrow> error + two_layer_net" where
  "two_layer_init normal1 normal2 hidden_dim num_classes weight_scale r =
     (if weight_scale < 0 then Inl ValueError
      else Inr \<lparr> tl_params =
                   AList.update ''b2'' (V (replicate num_classes 0))
                     (AList.update ''W2'' (M normal2)
                        (AList.update ''b1'' (V (replicate hidden_dim 0))
                           (AList.update ''W1'' (M normal1) []))),
                 tl_reg = r \<rparr>)"

definition two_layer_loss :: "two_layer_net \<Rightarrow> matrix \<Rightarrow> int list option \<Rightarrow> error + loss_result" where
  "two_layer_loss net X y =
     (case get_matrix (tl_params net) ''W1'' of Inl e \<Rightarrow> Inl e | Inr W1 \<Rightarrow>
      case get_vector (tl_params net) ''b1'' of Inl e \<Rightarrow> Inl e | Inr b1 \<Rightarrow>
      case get_matrix (tl_params net) ''W2'' of Inl e \<Rightarrow> Inl e | Inr W2 \<Rightarrow>
      case get_vector (tl_params net) ''b2'' of Inl e \<Rightarrow> Inl e | Inr b2 \<Rightarrow>
      case affine_relu_forward X W1 b1 of Inl e \<Rightarrow> Inl e | Inr (l1_out, l1_cache) \<Rightarrow>
      case affine_forward l1_out W2 b2 of Inl e \<Rightarrow> Inl e | Inr (scores, l2_cache) \<Rightarrow>
      (case y of
         None \<Rightarrow> Inr (Scores scores)
       | Some labels \<Rightarrow>
          (case finite_loss (softmax_loss exact_arith scores labels) of Inl e \<Rightarrow> Inl e | Inr (data_loss, dsm) \<Rightarrow>
           case affine_backward dsm l2_cache of Inl e \<Rightarrow> Inl e | Inr (dx2, dW2, db2) \<Rightarrow>
           case affine_relu_backward dx2 l1_cache of Inl e \<Rightarrow> Inl e | Inr (dx1, dW1, db1) \<Rightarrow>
             Inr (LossGrads
                    (data_loss + 0.5 * tl_reg net * (sum_squares W1 + sum_squares W2))
                    (AList.update ''b2'' (V db2)
                       (AList.update ''b1'' (V db1)
                          (AList.update ''W2'' (M (add_reg (tl_reg net) dW2 W2))
                             (AList.update ''W1'' (M (add_reg (tl_reg net) dW1 W1)) []))))))))"

subsection \<open>\<^verbatim>\<open>FullyConnectedNet\<close>\<close>

record fc_net =
  use_batchnorm :: bool
  use_dropout :: bool
  reg :: real
  num_layers :: nat
  net_params :: "ndarray dict"
  dropout_param :: "pval dict option"
  bn_params :: "pval dict list"

text \<open>
  The loop of \<^verbatim>\<open>__init__\<close> over the hidden layers, from layer index \<open>i\<close> on; \<open>normal i\<close> is
  the array that \<^verbatim>\<open>np.random.normal\<close> draws for layer \<open>i\<close>. It returns the input size of the
  next layer and the parameters.
\<close>

fun init_hidden :: "(nat \<Rightarrow> matrix) \<Rightarrow> bool \<Rightarrow> nat \<Rightarrow> nat \<Rightarrow> nat list \<Rightarrow> ndarray dict \<Rightarrow> nat \<times> ndarray dict" where
  "init_hidden normal ubn i input_size [] ps = (input_size, ps)"
| "init_hidden normal ubn i input_size (hidden_dim_size # hs) ps =
     (let ps1 = AList.update (pname ''W'' (i + 1)) (M (normal i)) ps;
          ps2 = AList.update (pname ''b'' (i + 1)) (V (replicate hidden_dim_size 0)) ps1;
          ps3 = (if ubn
                 then AList.update (pname ''beta'' (i + 1)) (V (replicate hidden_dim_size 0))
                        (AList.update (pname ''gamma'' (i + 1)) (V (replicate hidden_dim_size 1)) ps2)
                 else ps2)
      in init_hidden normal ubn (i + 1) hidden_dim_size hs ps3)"

text \<open>\<^verbatim>\<open>FullyConnectedNet.__init__\<close>; the cast to \<^verbatim>\<open>dtype\<close> does not change the exact values.\<close>

definition fc_init ::
  "(nat \<Rightarrow> matrix) \<Rightarrow> nat list \<Rightarrow> nat \<Rightarrow> nat \<Rightarrow> real \<Rightarrow> bool \<Rightarrow> real \<Rightarrow> real \<Rightarrow> int option \<Rightarrow> error + fc_net" where
  "fc_init normal hidden_dims input_dim num_classes dropout ubn r weight_scale seed =
     (if weight_scale < 0 then Inl ValueError
      else
        (let L = 1 + length hidden_dims;
             (input_size, ps) = init_hidden normal ubn 0 input_dim hidden_dims [];
             ps' = AList.update (pname ''b'' L) (V (replicate num_classes 0))
                     (AList.update (pname ''W'' L) (M (normal (L - 1))) ps);
             dp = (if dropout > 0
                   then (let d = [(''mode'', Str ''train''), (''p'', Num dropout)]
                         in case seed of None \<Rightarrow> d | Some sd \<Rightarrow> AList.update ''seed'' (Num (real_of_int sd)) d)
                   else [])
         in Inr \<lparr> use_batchnorm = ubn, use_dropout = (dropout > 0), reg = r, num_layers = L,
                   net_params = ps', dropout_param = Some dp,
                   bn_params = (if ubn then map (\<lambda>i. [(''mode'', Str ''train'')]) [0..<L - 1] else []) \<rparr>))"

text \<open>
  The first statements of \<^verbatim>\<open>loss\<close>, which write the mode into the dropout and batch
  normalization dictionaries. The source assigns \<^verbatim>\<open>bn_param[mode] = mode\<close>, with the variable
  \<^verbatim>\<open>mode\<close> as the key.
\<close>

definition set_modes :: "string \<Rightarrow> fc_net \<Rightarrow> fc_net" where
  "set_modes mode net =
     net\<lparr> dropout_param :=
            (case dropout_param net of
               None \<Rightarrow> None
             | Some d \<Rightarrow> Some (AList.update ''mode'' (Str mode) d)),
          bn_params :=
            (if use_batchnorm net
             then map (\<lambda>bn_param. AList.update mode (Str mode) bn_param) (bn_params net)
             else bn_params net) \<rparr>"

text \<open>The dictionary \<^verbatim>\<open>cache\<close> of one hidden layer; two of its keys are only set when the layer has them.\<close>

record layer_cache =
  lc_affine :: "matrix \<times> matrix \<times> vec"
  lc_batchNorm :: "bn_cache option option"
  lc_relu :: matrix
  lc_dropout :: "(pval dict \<times> matrix option) option"

text \<open>The batch normalization step of hidden layer \<open>i\<close> in the forward pass.\<close>

definition forward_batchnorm ::
  "fc_net \<Rightarrow> nat \<Rightarrow> matrix \<Rightarrow> pval dict list \<Rightarrow> error + (matrix \<times> bn_cache option option \<times> pval dict list)" where
  "forward_batchnorm net i l_out bns =
     (if use_batchnorm net then
        (case get_vector (net_params net) (pname ''gamma'' (i + 1)) of Inl e \<Rightarrow> Inl e | Inr g \<Rightarrow>
         case get_vector (net_params net) (pname ''beta'' (i + 1)) of Inl e \<Rightarrow> Inl e | Inr b \<Rightarrow>
           if i < length bns then
             (case batchnorm_forward l_out g b (bns ! i) of
                Inl e \<Rightarrow> Inl e
              | Inr (out, cache, bn_param') \<Rightarrow> Inr (out, Some cache, bns[i := bn_param']))
           else Inl IndexError)
      else Inr (l_out, None, bns))"

text \<open>The dropout step of hidden layer \<open>i\<close> in the forward pass; \<open>rand\<close> is the layer's random array.\<close>

definition forward_dropout ::
  "fc_net \<Rightarrow> matrix \<Rightarrow> matrix \<Rightarrow> error + (matrix \<times> (pval dict \<times> matrix option) option)" where
  "forward_dropout net l_out rand =
     (if use_dropout net then
        (case dropout_param net of
           None \<Rightarrow> Inl TypeError
         | Some dp \<Rightarrow>
            (case dropout_forward l_out dp rand of
               Inl e \<Rightarrow> Inl e
             | Inr (out, cache) \<Rightarrow> Inr (out, Some cache)))
      else Inr (l_out, None))"

text \<open>
  The loop \<^verbatim>\<open>for i in range(self.num_layers - 1)\<close> of the forward pass over the state
  \<^verbatim>\<open>(l_out, reg_sum, caches)\<close> and the batch normalization dictionaries.
\<close>

fun fc_forward ::
  "fc_net \<Rightarrow> (nat \<Rightarrow> matrix) \<Rightarrow> nat list \<Rightarrow> matrix \<times> real \<times> layer_cache list \<times> pval dict list
     \<Rightarrow> error + (matrix \<times> real \<times> layer_cache list \<times> pval dict list)" where
  "fc_forward net rand [] st = Inr st"
| "fc_forward net rand (i # is) (l_out, reg_sum, caches, bns) =
     (case get_matrix (net_params net) (pname ''W'' (i + 1)) of Inl e \<Rightarrow> Inl e | Inr W \<Rightarrow>
      case get_vector (net_params net) (pname ''b'' (i + 1)) of Inl e \<Rightarrow> Inl e | Inr b \<Rightarrow>
      case affine_forward l_out W b of Inl e \<Rightarrow> Inl e | Inr (a, affine_cache) \<Rightarrow>
      case forward_batchnorm net i a bns of Inl e \<Rightarrow> Inl e | Inr (n, bn_cache, bns') \<Rightarrow>
      case relu_forward n of (r, relu_cache) \<Rightarrow>
      case forward_dropout net r (rand i) of Inl e \<Rightarrow> Inl e | Inr (d, dropout_cache) \<Rightarrow>
        fc_forward net rand is
          (d, reg_sum + sum_squares W,
           caches @ [\<lparr> lc_affine = affine_cache, lc_batchNorm = bn_cache, lc_relu = relu_cache,
                       lc_dropout = dropout_cache \<rparr>],
           bns'))"

text \<open>The dropout and the batch normalization step of a hidden layer in the backward pass.\<close>

definition backward_dropout :: "fc_net \<Rightarrow> layer_cache \<Rightarrow> matrix \<Rightarrow> error + matrix" where
  "backward_dropout net cache dx =
     (if use_dropout net then
        (case lc_dropout cache of
           None \<Rightarrow> Inl (KeyError ''dropout'')
         | Some c \<Rightarrow>
            (case dropout_backward dx c of
               Inl e \<Rightarrow> Inl e
             | Inr None \<Rightarrow> Inl IndexError
             | Inr (Some dx') \<Rightarrow> Inr dx'))
      else Inr dx)"

definition backward_batchnorm ::
  "fc_net \<Rightarrow> nat \<Rightarrow> layer_cache \<Rightarrow> matrix \<Rightarrow> ndarray dict \<Rightarrow> error + (matrix \<times> ndarray dict)" where
  "backward_batchnorm net i cache dx grads =
     (if use_batchnorm net then
        (case lc_batchNorm cache of
           None \<Rightarrow> Inl (KeyError ''batchNorm'')
         | Some c \<Rightarrow>
            (case batchnorm_backward dx c of
               Inl e \<Rightarrow> Inl e
             | Inr (dx', dgamma, dbeta) \<Rightarrow>
                 Inr (dx', AList.update (pname ''beta'' (i + 1)) (V dbeta)
                             (AList.update (pname ''gamma'' (i + 1)) (V dgamma) grads))))
      else Inr (dx, grads))"

text \<open>The loop \<^verbatim>\<open>for i in range(self.num_layers - 2, -1, -1)\<close> over \<^verbatim>\<open>(dx, grads)\<close>.\<close>

fun fc_backward ::
  "fc_net \<Rightarrow> layer_cache list \<Rightarrow> nat list \<Rightarrow> matrix \<times> ndarray dict \<Rightarrow> error + (matrix \<times> ndarray dict)" where
  "fc_backward net caches [] st = Inr st"
| "fc_backward net caches (i # is) (dx, grads) =
     (if length caches \<le> i then Inl IndexError
      else
        (case backward_dropout net (caches ! i) dx of Inl e \<Rightarrow> Inl e | Inr dx1 \<Rightarrow>
         case relu_backward dx1 (lc_relu (caches ! i)) of Inl e \<Rightarrow> Inl e | Inr dx2 \<Rightarrow>
         case backward_batchnorm net i (caches ! i) dx2 grads of Inl e \<Rightarrow> Inl e | Inr (dx3, grads1) \<Rightarrow>
         case affine_backward dx3 (lc_affine (caches ! i)) of Inl e \<Rightarrow> Inl e | Inr (dx4, dW, db) \<Rightarrow>
         case get_matrix (net_params net) (pname ''W'' (i + 1)) of Inl e \<Rightarrow> Inl e | Inr W \<Rightarrow>
           fc_backward net caches is
             (dx4, AList.update (pname ''b'' (i + 1)) (V db)
                     (AList.update (pname ''W'' (i + 1)) (M (add_reg (reg net) dW W)) grads1))))"

text \<open>
  \<^verbatim>\<open>FullyConnectedNet.loss(X, y)\<close>. It returns its result together with the network, whose
  dropout and batch normalization dictionaries it has changed; \<open>rand i\<close> is the random array of
  the dropout of hidden layer \<open>i\<close>.
\<close>

definition fc_loss :: "fc_net \<Rightarrow> matrix \<Rightarrow> int list option \<Rightarrow> (nat \<Rightarrow> matrix) \<Rightarrow> error + (loss_result \<times> fc_net)" where
  "fc_loss net0 X y rand =
     (let mode = (case y of None \<Rightarrow> ''test'' | Some _ \<Rightarrow> ''train'');
          net = set_modes mode net0 in
      case fc_forward net rand [0..<num_layers net - 1] (X, 0, [], bn_params net) of
        Inl e \<Rightarrow> Inl e
      | Inr (l_out, reg_sum, caches, bns) \<Rightarrow>
         (let net' = net\<lparr> bn_params := bns \<rparr> in
          case get_matrix (net_params net) (pname ''W'' (num_layers net)) of Inl e \<Rightarrow> Inl e | Inr W \<Rightarrow>
          case get_vector (net_params net) (pname ''b'' (num_layers net)) of Inl e \<Rightarrow> Inl e | Inr b \<Rightarrow>
          case affine_forward l_out W b of Inl e \<Rightarrow> Inl e | Inr (scores, l_cache) \<Rightarrow>
          (case y of
             None \<Rightarrow> Inr (Scores scores, net')
           | Some labels \<Rightarrow>
              (case finite_loss (softmax_loss exact_arith scores labels) of Inl e \<Rightarrow> Inl e | Inr (data_loss, dsm) \<Rightarrow>
               case affine_backward dsm l_cache of Inl e \<Rightarrow> Inl e | Inr (dx, dW, db) \<Rightarrow>
               case fc_backward net caches (rev [0..<num_layers net - 1])
                      (dx, AList.update (pname ''b'' (num_layers net)) (V db)
                             (AList.update (pname ''W'' (num_layers net)) (M dW) [])) of
                 Inl e \<Rightarrow> Inl e
               | Inr (dx0, grads) \<Rightarrow>
                   Inr (LossGrads (data_loss + 0.5 * reg net * reg_sum) grads, net')))))"

subsection \<open>Names of the parameters of a layer\<close>

text \<open>The keys that belong to layer \<open>n\<close> (counted from 1) of a network with hidden layers.\<close>

definition hidden_layer_keys :: "bool \<Rightarrow> nat \<Rightarrow> string set" where
  "hidden_layer_keys ubn n =
     {pname ''W'' n, pname ''b'' n} \<union> (if ubn then {pname ''gamma'' n, pname ''beta'' n} else {})"

subsection \<open>Two concrete networks\<close>

text \<open>
  The network \<^verbatim>\<open>FullyConnectedNet([1], input_dim=1, num_classes=2, dropout=0.5, use_batchnorm=True)\<close>
  when the weights drawn are \<^verbatim>\<open>W1 = [[1]]\<close> and \<^verbatim>\<open>W2 = [[0, 0]]\<close>, with dropout draws
  of 0.75, and the \<^verbatim>\<open>TwoLayerNet(input_dim=1, hidden_dim=1, num_classes=2)\<close> with the same
  weights.
\<close>

definition demo_normal :: "nat \<Rightarrow> matrix" where
  "demo_normal i = (if i = 0 then [[1]] else [[0, 0]])"

definition demo_rand :: "nat \<Rightarrow> matrix" where
  "demo_rand i = [[3 / 4], [3 / 4]]"

definition demo_net :: fc_net where
  "demo_net = \<lparr> use_batchnorm = True, use_dropout = True, reg = 0, num_layers = 2,
       net_params = [(''W1'', M [[1]]), (''b1'', V [0]), (''gamma1'', V [1]), (''beta1'', V [0]),
                     (''W2'', M [[0, 0]]), (''b2'', V [0, 0])],
       dropout_param = Some [(''mode'', Str ''train''), (''p'', Num (1 / 2))],
       bn_params = [[(''mode'', Str ''train'')]] \<rparr>"

definition demo_two_layer_net :: two_layer_net where
  "demo_two_layer_net =
     \<lparr> tl_params = [(''W1'', M [[1]]), (''b1'', V [0]), (''W2'', M [[0, 0]]), (''b2'', V [0, 0])],
       tl_reg = 0 \<rparr>"

section \<open>\<^verbatim>\<open>solver.py\<close>\<close>

subsection \<open>Configuration, collaborators and state of a Solver\<close>

text \<open>
  The keyword arguments of \<^verbatim>\<open>Solver.__init__\<close> that \<^verbatim>\<open>train\<close> reads, and
  \<^verbatim>\<open>X_train.shape[0]\<close>.
\<close>

record solver_cfg =
  num_train :: nat
  batch_size :: int
  num_epochs :: int
  early_stopping :: int
  lr_decay :: real
  verbose :: bool

text \<open>
  The per-parameter optimizer dictionary: the solver itself only touches its
  \<^verbatim>\<open>'learning_rate'\<close> entry (which may be missing); everything else belongs to the update
  rule.
\<close>

record 'c optim_config =
  learning_rate :: "real option"
  opt_rest :: 'c

text \<open>
  The solver is written against any model with a \<^verbatim>\<open>params\<close> dictionary and a
  \<^verbatim>\<open>loss\<close> method, and against any update rule of \<^verbatim>\<open>optim.py\<close>. What these calls
  return in iteration \<open>t\<close> (it depends on the random minibatch and on state hidden in the
  model) is given by the collaborators; each of them may raise.
  \<^item> \<open>model_loss t params\<close>: the drawing of the minibatch and
    \<^verbatim>\<open>self.model.loss(X_batch, y_batch)\<close> in \<^verbatim>\<open>_step\<close>;
  \<^item> \<open>update_rule w dw config\<close>: \<^verbatim>\<open>self.update_rule(w, dw, config)\<close>;
  \<^item> \<open>check_train_acc t params\<close>: \<^verbatim>\<open>self.check_accuracy(self.X_train, self.y_train, num_samples=1000)\<close>;
  \<^item> \<open>check_val_acc t params\<close>: \<^verbatim>\<open>self.check_accuracy(self.X_val, self.y_val)\<close>;
  \<^item> \<open>model_val_loss t params\<close>: \<^verbatim>\<open>self.model.loss(self.X_val, self.y_val)[0]\<close>.
\<close>

record ('w, 'c) collaborators =
  model_loss :: "nat \<Rightarrow> 'w dict \<Rightarrow> error + (real \<times> 'w dict)"
  update_rule :: "'w \<Rightarrow> 'w \<Rightarrow> 'c optim_config \<Rightarrow> error + ('w \<times> 'c optim_config)"
  check_train_acc :: "nat \<Rightarrow> 'w dict \<Rightarrow> error + real"
  check_val_acc :: "nat \<Rightarrow> 'w dict \<Rightarrow> error + real"
  model_val_loss :: "nat \<Rightarrow> 'w dict \<Rightarrow> error + real"

text \<open>The attributes of the solver that change during training; \<open>params\<close> is \<^verbatim>\<open>self.model.params\<close>.\<close>

record ('w, 'c) solver =
  params :: "'w dict"
  optim_configs :: "'c optim_config dict"
  epoch :: int
  best_val_acc :: real
  best_params :: "'w dict"
  early_stopping_counter :: int
  loss_history :: "real list"
  val_loss_history :: "real list"
  train_acc_history :: "real list"
  val_acc_history :: "real list"

subsection \<open>\<^verbatim>\<open>Solver._reset\<close>\<close>

definition reset :: "solver_cfg \<Rightarrow> 'c optim_config \<Rightarrow> 'w dict \<Rightarrow> ('w, 'c) solver" where
  "reset cfg optim_config0 model_params =
     \<lparr> params = model_params,
       optim_configs = fold (\<lambda>p cs. AList.update p optim_config0 cs) (map fst model_params) [],
       epoch = 0,
       best_val_acc = 0,
       best_params = [],
       early_stopping_counter = early_stopping cfg,
       loss_history = [],
       val_loss_history = [],
       train_acc_history = [],
       val_acc_history = [] \<rparr>"

subsection \<open>\<^verbatim>\<open>Solver._step\<close>\<close>

text \<open>
  The loop \<^verbatim>\<open>for p, w in self.model.params.items()\<close>: it only assigns keys that are
  present, so the order and the remaining items of the dictionary do not change while it runs.
\<close>

fun update_params ::
  "('w, 'c) collaborators \<Rightarrow> 'w dict \<Rightarrow> 'w dict \<Rightarrow> ('w, 'c) solver \<Rightarrow> error + ('w, 'c) solver"
where
  "update_params env grads [] s = Inr s"
| "update_params env grads ((p, w) # items) s =
     (case map_of grads p of
        None \<Rightarrow> Inl (KeyError p)
      | Some dw \<Rightarrow>
         (case map_of (optim_configs s) p of
            None \<Rightarrow> Inl (KeyError p)
          | Some config \<Rightarrow>
             (case update_rule env w dw config of
                Inl e \<Rightarrow> Inl e
              | Inr (next_w, next_config) \<Rightarrow>
                  update_params env grads items
                    (s\<lparr> params := AList.update p next_w (params s),
                        optim_configs := AList.update p next_config (optim_configs s) \<rparr>))))"

definition step :: "('w, 'c) collaborators \<Rightarrow> nat \<Rightarrow> ('w, 'c) solver \<Rightarrow> error + ('w, 'c) solver" where
  "step env t s =
     (case model_loss env t (params s) of
        Inl e \<Rightarrow> Inl e
      | Inr (loss, grads) \<Rightarrow>
          update_params env grads (params s) (s\<lparr> loss_history := loss_history s @ [loss] \<rparr>))"

subsection \<open>\<^verbatim>\<open>Solver.train\<close>\<close>

definition iterations_per_epoch :: "solver_cfg \<Rightarrow> int" where
  "iterations_per_epoch cfg = max (int (num_train cfg) div batch_size cfg) 1"

definition num_iterations :: "solver_cfg \<Rightarrow> int" where
  "num_iterations cfg = num_epochs cfg * iterations_per_epoch cfg"

definition epoch_end :: "solver_cfg \<Rightarrow> nat \<Rightarrow> bool" where
  "epoch_end cfg t \<longleftrightarrow> (int t + 1) mod iterations_per_epoch cfg = 0"

definition first_it :: "nat \<Rightarrow> bool" where
  "first_it t \<longleftrightarrow> t = 0"

definition last_it :: "solver_cfg \<Rightarrow> nat \<Rightarrow> bool" where
  "last_it cfg t \<longleftrightarrow> int t = num_iterations cfg + 1"

text \<open>\<^verbatim>\<open>for k in self.optim_configs: self.optim_configs[k]['learning_rate'] *= self.lr_decay\<close>\<close>

fun decay_learning_rates :: "real \<Rightarrow> 'c optim_config dict \<Rightarrow> error + 'c optim_config dict" where
  "decay_learning_rates d [] = Inr []"
| "decay_learning_rates d ((k, c) # cs) =
     (case learning_rate c of
        None \<Rightarrow> Inl (KeyError ''learning_rate'')
      | Some lr \<Rightarrow>
         (case decay_learning_rates d cs of
            Inl e \<Rightarrow> Inl e
          | Inr cs' \<Rightarrow> Inr ((k, c\<lparr> learning_rate := Some (lr * d) \<rparr>) # cs')))"

definition end_of_epoch :: "solver_cfg \<Rightarrow> nat \<Rightarrow> ('w, 'c) solver \<Rightarrow> error + ('w, 'c) solver" where
  "end_of_epoch cfg t s =
     (if epoch_end cfg t then
        (case decay_learning_rates (lr_decay cfg) (optim_configs s) of
           Inl e \<Rightarrow> Inl e
         | Inr cs \<Rightarrow> Inr (s\<lparr> epoch := epoch s + 1, optim_configs := cs \<rparr>))
      else Inr s)"

text \<open>The \<^verbatim>\<open>if self.verbose:\<close> block of a checkpoint; only its call of the model and its append matter.\<close>

definition report :: "solver_cfg \<Rightarrow> ('w, 'c) collaborators \<Rightarrow> nat \<Rightarrow> ('w, 'c) solver \<Rightarrow> error + ('w, 'c) solver" where
  "report cfg env t s =
     (if verbose cfg then
        (case model_val_loss env t (params s) of
           Inl e \<Rightarrow> Inl e
         | Inr val_loss \<Rightarrow> Inr (s\<lparr> val_loss_history := val_loss_history s @ [val_loss] \<rparr>))
      else Inr s)"

text \<open>
  The best-checkpoint and early-stopping block. The boolean of the result says whether the
  \<^verbatim>\<open>break\<close> was executed.
\<close>

definition keep_best :: "solver_cfg \<Rightarrow> real \<Rightarrow> ('w, 'c) solver \<Rightarrow> bool \<times> ('w, 'c) solver" where
  "keep_best cfg val_acc s =
     (if val_acc > best_val_acc s then
        (False, s\<lparr> best_val_acc := val_acc,
                   best_params := params s,
                   early_stopping_counter := early_stopping cfg \<rparr>)
      else
        (let s' = s\<lparr> early_stopping_counter := early_stopping_counter s - 1 \<rparr>
         in if early_stopping cfg > - 1 \<and> early_stopping_counter s' \<le> 0
            then (True, s'\<lparr> params := best_params s' \<rparr>)
            else (False, s')))"

definition checkpoint :: "solver_cfg \<Rightarrow> ('w, 'c) collaborators \<Rightarrow> nat \<Rightarrow> ('w, 'c) solver \<Rightarrow> error + (bool \<times> ('w, 'c) solver)" where
  "checkpoint cfg env t s =
     (case check_train_acc env t (params s) of
        Inl e \<Rightarrow> Inl e
      | Inr train_acc \<Rightarrow>
         (case check_val_acc env t (params s) of
            Inl e \<Rightarrow> Inl e
          | Inr val_acc \<Rightarrow>
             (case report cfg env t
                     (s\<lparr> train_acc_history := train_acc_history s @ [train_acc],
                         val_acc_history := val_acc_history s @ [val_acc] \<rparr>) of
                Inl e \<Rightarrow> Inl e
              | Inr s' \<Rightarrow> Inr (keep_best cfg val_acc s'))))"

text \<open>One pass through the body of \<^verbatim>\<open>for t in range(num_iterations)\<close>.\<close>

definition train_iter :: "solver_cfg \<Rightarrow> ('w, 'c) collaborators \<Rightarrow> nat \<Rightarrow> ('w, 'c) solver \<Rightarrow> error + (bool \<times> ('w, 'c) solver)" where
  "train_iter cfg env t s =
     (case step env t s of
        Inl e \<Rightarrow> Inl e
      | Inr s1 \<Rightarrow>
         (case end_of_epoch cfg t s1 of
            Inl e \<Rightarrow> Inl e
          | Inr s2 \<Rightarrow>
              if first_it t \<or> last_it cfg t \<or> epoch_end cfg t
              then checkpoint cfg env t s2
              else Inr (False, s2)))"

fun train_loop :: "solver_cfg \<Rightarrow> ('w, 'c) collaborators \<Rightarrow> nat list \<Rightarrow> ('w, 'c) solver \<Rightarrow> error + ('w, 'c) solver" where
  "train_loop cfg env [] s = Inr s"
| "train_loop cfg env (t # ts) s =
     (case train_iter cfg env t s of
        Inl e \<Rightarrow> Inl e
      | Inr (stop, s') \<Rightarrow> if stop then Inr s' else train_loop cfg env ts s')"

definition train :: "solver_cfg \<Rightarrow> ('w, 'c) collaborators \<Rightarrow> ('w, 'c) solver \<Rightarrow> error + ('w, 'c) solver" where
  "train cfg env s =
     (if batch_size cfg = 0 then Inl ZeroDivisionError
      else
        (case train_loop cfg env [0..<nat (num_iterations cfg)] s of
           Inl e \<Rightarrow> Inl e
         | Inr s' \<Rightarrow> Inr (s'\<lparr> params := best_params s' \<rparr>)))"

subsection \<open>Two concrete training runs\<close>

text \<open>
  A model with one parameter whose validation accuracy is 0 at every checkpoint, trained on 200
  examples in batches of 100 (two iterations per epoch) with a patience of one epoch, and the
  same model trained for two epochs of one iteration each without early stopping.
\<close>

definition demo_cfg :: solver_cfg where
  "demo_cfg = \<lparr> num_train = 200, batch_size = 100, num_epochs = 1, early_stopping = 1,
                lr_decay = 1, verbose = False \<rparr>"

definition demo_env :: "(real, unit) collaborators" where
  "demo_env = \<lparr> model_loss = (\<lambda>t ps. Inr (1, [(''W1'', 1)])),
                update_rule = (\<lambda>w dw config. Inr (w - dw, config)),
                check_train_acc = (\<lambda>t ps. Inr 0),
                check_val_acc = (\<lambda>t ps. Inr 0),
                model_val_loss = (\<lambda>t ps. Inr 1) \<rparr>"

definition demo_init :: "(real, unit) solver" where
  "demo_init = reset demo_cfg \<lparr> learning_rate = Some 1, opt_rest = () \<rparr> [(''W1'', 5)]"

definition plain_cfg :: solver_cfg where
  "plain_cfg = \<lparr> num_train = 100, batch_size = 100, num_epochs = 2, early_stopping = - 1,
                 lr_decay = 1, verbose = True \<rparr>"

definition plain_init :: "(real, unit) solver" where
  "plain_init = reset plain_cfg \<lparr> learning_rate = Some 1, opt_rest = () \<rparr> [(''W1'', 5)]"

section \<open>Properties of the solver\<close>

subsection \<open>What one iteration leaves unchanged\<close>

lemma update_params_keeps:
  "update_params env grads items s = Inr s' \<Longrightarrow>
     val_acc_history s' = val_acc_history s \<and> train_acc_history s' = train_acc_history s \<and>
     best_params s' = best_params s \<and> best_val_acc s' = best_val_acc s \<and>
     early_stopping_counter s' = early_stopping_counter s"
  by (induction env grads items s rule: update_params.induct)
     (auto split: option.splits sum.splits prod.splits)

lemma step_keeps:
  "step env t s = Inr s' \<Longrightarrow>
     val_acc_history s' = val_acc_history s \<and> train_acc_history s' = train_acc_history s \<and>
     best_params s' = best_params s \<and> best_val_acc s' = best_val_acc s \<and>
     early_stopping_counter s' = early_stopping_counter s"
  by (auto simp: step_def split: sum.splits prod.splits dest!: update_params_keeps)

lemma end_of_epoch_keeps:
  "end_of_epoch cfg t s = Inr s' \<Longrightarrow>
     val_acc_history s' = val_acc_history s \<and> train_acc_history s' = train_acc_history s \<and>
     best_params s' = best_params s \<and> best_val_acc s' = best_val_acc s \<and>
     early_stopping_counter s' = early_stopping_counter s"
  by (auto simp: end_of_epoch_def split: sum.splits if_splits)

lemma report_keeps:
  "report cfg env t s = Inr s' \<Longrightarrow>
     val_acc_history s' = val_acc_history s \<and> train_acc_history s' = train_acc_history s \<and>
     best_params s' = best_params s \<and> best_val_acc s' = best_val_acc s \<and>
     early_stopping_counter s' = early_stopping_counter s \<and> params s' = params s"
  by (auto simp: report_def split: sum.splits if_splits)



lemma last_it_never: "int t < num_iterations cfg \<Longrightarrow> \<not> last_it cfg t"
  by (simp add: last_it_def)

subsection \<open>The two concrete runs, evaluated\<close>

lemma demo_first_iteration:
  "train_iter demo_cfg demo_env 0 demo_init =
     Inr (True, \<lparr> params = [], optim_configs = [(''W1'', \<lparr> learning_rate = Some 1, opt_rest = () \<rparr>)],
                  epoch = 0, best_val_acc = 0, best_params = [], early_stopping_counter = 0,
                  loss_history = [1], val_loss_history = [], train_acc_history = [0],
                  val_acc_history = [0] \<rparr>)"
  by (simp add: train_iter_def step_def demo_init_def reset_def demo_env_def end_of_epoch_def
        epoch_end_def iterations_per_epoch_def first_it_def checkpoint_def report_def keep_best_def
        Let_def demo_cfg_def)

lemma demo_num_iterations: "num_iterations demo_cfg = 2"
  by (simp add: num_iterations_def iterations_per_epoch_def demo_cfg_def)

lemma demo_not_epoch_end: "\<not> epoch_end demo_cfg 0"
  by (simp add: epoch_end_def iterations_per_epoch_def demo_cfg_def)

lemma plain_ipe: "iterations_per_epoch plain_cfg = 1"
  by (simp add: iterations_per_epoch_def plain_cfg_def)

lemma plain_range: "[0..<nat (num_iterations plain_cfg)] = [0, 1]"
  by (simp add: num_iterations_def plain_ipe) (simp add: plain_cfg_def upt_rec)

lemma plain_first_iteration:
  "train_iter plain_cfg demo_env 0 plain_init =
     Inr (False, \<lparr> params = [(''W1'', 4)], optim_configs = [(''W1'', \<lparr> learning_rate = Some 1, opt_rest = () \<rparr>)],
                  epoch = 1, best_val_acc = 0, best_params = [], early_stopping_counter = - 2,
                  loss_history = [1], val_loss_history = [1], train_acc_history = [0],
                  val_acc_history = [0] \<rparr>)"
  by (simp add: train_iter_def step_def plain_init_def reset_def demo_env_def end_of_epoch_def
        epoch_end_def plain_ipe first_it_def checkpoint_def report_def keep_best_def Let_def)
     (simp add: plain_cfg_def)

lemma plain_loop:
  "train_loop plain_cfg demo_env [0..<nat (num_iterations plain_cfg)] plain_init =
     Inr \<lparr> params = [(''W1'', 3)], optim_configs = [(''W1'', \<lparr> learning_rate = Some 1, opt_rest = () \<rparr>)],
           epoch = 2, best_val_acc = 0, best_params = [], early_stopping_counter = - 3,
           loss_history = [1, 1], val_loss_history = [1, 1], train_acc_history = [0, 0],
           val_acc_history = [0, 0] \<rparr>"
  apply (simp add: plain_range plain_first_iteration)
  apply (simp add: train_iter_def step_def demo_env_def end_of_epoch_def
        epoch_end_def plain_ipe first_it_def checkpoint_def report_def keep_best_def Let_def)
  apply (simp add: plain_cfg_def)
  done

lemma plain_train:
  "train plain_cfg demo_env plain_init =
     Inr \<lparr> params = [], optim_configs = [(''W1'', \<lparr> learning_rate = Some 1, opt_rest = () \<rparr>)],
           epoch = 2, best_val_acc = 0, best_params = [], early_stopping_counter = - 3,
           loss_history = [1, 1], val_loss_history = [1, 1], train_acc_history = [0, 0],
           val_acc_history = [0, 0] \<rparr>"
  by (simp add: train_def plain_loop) (simp add: plain_cfg_def)

subsection \<open>Evaluation checkpoints\<close>



subsection \<open>Early stopping\<close>

text \<open>
  Claim C6, as stated, fails: with a patience of one epoch and a validation accuracy of 0 at the
  first iteration, training of a two-iterations-per-epoch run stops in iteration \<open>t = 0\<close>, which
  does not end an epoch.
\<close>

theorem early_stop_mid_epoch_counterexample:
  "train_iter demo_cfg demo_env 0 demo_init =
     Inr (True, \<lparr> params = [], optim_configs = [(''W1'', \<lparr> learning_rate = Some 1, opt_rest = () \<rparr>)],
                  epoch = 0, best_val_acc = 0, best_params = [], early_stopping_counter = 0,
                  loss_history = [1], val_loss_history = [], train_acc_history = [0],
                  val_acc_history = [0] \<rparr>)
   \<and> \<not> epoch_end demo_cfg 0 \<and> int 0 < num_iterations demo_cfg \<and> - 1 < early_stopping demo_cfg"
  by (simp add: demo_first_iteration demo_not_epoch_end demo_num_iterations) (simp add: demo_cfg_def)

text \<open>
  Claim C6, amended. An iteration of the loop executes the \<^verbatim>\<open>break\<close> only at an evaluation
  checkpoint, that is in the first iteration or in an iteration that ends an epoch, and only when
  early stopping is enabled.
\<close>

theorem early_stop_only_at_checkpoint:
  assumes "int t < num_iterations cfg" and "train_iter cfg env t s = Inr (True, s')"
  shows "(t = 0 \<or> epoch_end cfg t) \<and> - 1 < early_stopping cfg"
proof -
  have nl: "\<not> last_it cfg t" using assms(1) by (rule last_it_never)
  from assms(2) obtain s2 where
    r: "(if first_it t \<or> last_it cfg t \<or> epoch_end cfg t then checkpoint cfg env t s2 else Inr (False, s2)) = Inr (True, s')"
    by (auto simp: train_iter_def split: sum.splits)
  then have c: "first_it t \<or> epoch_end cfg t" and k: "checkpoint cfg env t s2 = Inr (True, s')"
    using nl by (auto split: if_splits)
  from k have "- 1 < early_stopping cfg"
    by (auto simp: checkpoint_def keep_best_def Let_def split: sum.splits if_splits)
  with c show ?thesis by (simp add: first_it_def)
qed

theorem early_stop_only_at_checkpoint_witness:
  "int 0 < num_iterations demo_cfg
   \<and> ((0::nat) = 0 \<or> epoch_end demo_cfg 0) \<and> - 1 < early_stopping demo_cfg"
proof -
  have b: "int 0 < num_iterations demo_cfg" by (simp add: demo_num_iterations)
  from early_stop_only_at_checkpoint[OF b demo_first_iteration] b show ?thesis by simp
qed

subsection \<open>The best snapshot\<close>

lemma keep_best_best:
  "keep_best cfg v s = (stop, s') \<Longrightarrow>
     val_acc_history s' = val_acc_history s \<and>
     (if v > best_val_acc s
      then best_params s' = params s \<and> best_val_acc s' = v
      else best_params s' = best_params s \<and> best_val_acc s' = best_val_acc s)"
  by (cases "v > best_val_acc s") (auto simp: keep_best_def Let_def split: if_splits)

lemma checkpoint_best:
  assumes "checkpoint cfg env t s = Inr (stop, s')"
  shows "\<exists>v. val_acc_history s' = val_acc_history s @ [v] \<and>
             (if v > best_val_acc s
              then best_params s' = params s \<and> best_val_acc s' = v
              else best_params s' = best_params s \<and> best_val_acc s' = best_val_acc s)"
proof -
  from assms obtain ta v s1 where
    r: "report cfg env t (s\<lparr> train_acc_history := train_acc_history s @ [ta],
                         val_acc_history := val_acc_history s @ [v] \<rparr>) = Inr s1"
    and k: "keep_best cfg v s1 = (stop, s')"
    by (auto simp: checkpoint_def split: sum.splits)
  from report_keeps[OF r] have
    "val_acc_history s1 = val_acc_history s @ [v]" "best_params s1 = best_params s"
    "best_val_acc s1 = best_val_acc s" "params s1 = params s"
    by simp_all
  with keep_best_best[OF k] show ?thesis by (auto split: if_splits)
qed

lemma train_iter_best:
  assumes "train_iter cfg env t s = Inr (stop, s')"
  shows "(val_acc_history s' = val_acc_history s \<and> best_params s' = best_params s
            \<and> best_val_acc s' = best_val_acc s)
       \<or> (\<exists>v. val_acc_history s' = val_acc_history s @ [v] \<and>
             (if v > best_val_acc s
              then best_val_acc s' = v
              else best_params s' = best_params s \<and> best_val_acc s' = best_val_acc s))"
proof -
  from assms obtain s1 s2 where s1: "step env t s = Inr s1" and s2: "end_of_epoch cfg t s1 = Inr s2"
    and r: "(if first_it t \<or> last_it cfg t \<or> epoch_end cfg t then checkpoint cfg env t s2 else Inr (False, s2)) = Inr (stop, s')"
    by (auto simp: train_iter_def split: sum.splits)
  have h: "val_acc_history s2 = val_acc_history s" "best_params s2 = best_params s"
      "best_val_acc s2 = best_val_acc s"
    using step_keeps[OF s1] end_of_epoch_keeps[OF s2] by simp_all
  show ?thesis
  proof (cases "first_it t \<or> last_it cfg t \<or> epoch_end cfg t")
    case True
    with r have "checkpoint cfg env t s2 = Inr (stop, s')" by simp
    from checkpoint_best[OF this] h show ?thesis by (auto split: if_splits)
  next
    case False
    with r have "s' = s2" by simp
    with h show ?thesis by simp
  qed
qed

lemma train_iter_never_populated:
  assumes "train_iter cfg env t s = Inr (stop, s')"
    and "\<forall>v\<in>set (val_acc_history s'). \<not> 0 < v"
    and "best_params s = [] \<and> best_val_acc s = 0"
  shows "best_params s' = [] \<and> best_val_acc s' = 0"
  using train_iter_best[OF assms(1)] assms(2,3) by (auto split: if_splits)

lemma train_iter_history_grows:
  assumes "train_iter cfg env t s = Inr (stop, s')"
  shows "set (val_acc_history s) \<subseteq> set (val_acc_history s')"
  using train_iter_best[OF assms] by auto

lemma train_loop_history_grows:
  "train_loop cfg env ts s = Inr s' \<Longrightarrow> set (val_acc_history s) \<subseteq> set (val_acc_history s')"
proof (induction ts arbitrary: s)
  case Nil
  then show ?case by simp
next
  case (Cons t ts)
  then obtain stop s1 where it: "train_iter cfg env t s = Inr (stop, s1)"
    and rest: "(if stop then Inr s1 else train_loop cfg env ts s1) = Inr s'"
    by (auto split: sum.splits)
  show ?case
  proof (cases stop)
    case True
    with rest have "s' = s1" by simp
    with train_iter_history_grows[OF it] show ?thesis by simp
  next
    case False
    with rest have "train_loop cfg env ts s1 = Inr s'" by simp
    from Cons.IH[OF this] train_iter_history_grows[OF it] show ?thesis by blast
  qed
qed

lemma train_loop_never_populated:
  "train_loop cfg env ts s = Inr s' \<Longrightarrow> \<forall>v\<in>set (val_acc_history s'). \<not> 0 < v \<Longrightarrow>
     best_params s = [] \<and> best_val_acc s = 0 \<Longrightarrow> best_params s' = [] \<and> best_val_acc s' = 0"
proof (induction ts arbitrary: s)
  case Nil
  then show ?case by simp
next
  case (Cons t ts)
  then obtain stop s1 where it: "train_iter cfg env t s = Inr (stop, s1)"
    and rest: "(if stop then Inr s1 else train_loop cfg env ts s1) = Inr s'"
    by (auto split: sum.splits)
  show ?case
  proof (cases stop)
    case True
    with rest have "s' = s1" by simp
    with train_iter_never_populated[OF it] Cons.prems show ?thesis by simp
  next
    case False
    with rest have l: "train_loop cfg env ts s1 = Inr s'" by simp
    have "\<forall>v\<in>set (val_acc_history s1). \<not> 0 < v"
      using train_loop_history_grows[OF l] Cons.prems(2) by blast
    from train_iter_never_populated[OF it this Cons.prems(3)]
    show ?thesis using Cons.IH[OF l Cons.prems(2)] by simp
  qed
qed

text \<open>
  Claim C9. When \<^verbatim>\<open>train\<close> runs on a freshly reset solver and returns, and none of the
  validation accuracies it recorded at its checkpoints is greater than zero, \<^verbatim>\<open>best_params\<close> is
  still the empty dictionary and the model's parameter store has been replaced by it.
\<close>

theorem no_positive_val_acc_empties_params:
  assumes "train cfg env (reset cfg optim_config0 model_params) = Inr s"
    and "\<forall>v\<in>set (val_acc_history s). \<not> 0 < v"
  shows "best_params s = [] \<and> params s = []"
proof -
  from assms(1) obtain s' where
    l: "train_loop cfg env [0..<nat (num_iterations cfg)] (reset cfg optim_config0 model_params) = Inr s'"
    and s: "s = s'\<lparr> params := best_params s' \<rparr>"
    by (auto simp: train_def split: if_splits sum.splits)
  have "\<forall>v\<in>set (val_acc_history s'). \<not> 0 < v" using assms(2) s by simp
  from train_loop_never_populated[OF l this] have "best_params s' = []"
    by (simp add: reset_def)
  with s show ?thesis by simp
qed

theorem no_positive_val_acc_empties_params_witness:
  "train plain_cfg demo_env (reset plain_cfg \<lparr> learning_rate = Some 1, opt_rest = () \<rparr> [(''W1'', 5)])
     = Inr \<lparr> params = [], optim_configs = [(''W1'', \<lparr> learning_rate = Some 1, opt_rest = () \<rparr>)],
             epoch = 2, best_val_acc = 0, best_params = [], early_stopping_counter = - 3,
             loss_history = [1, 1], val_loss_history = [1, 1], train_acc_history = [0, 0],
             val_acc_history = [0, 0] \<rparr>
   \<and> \<not> 0 < (0::real)
   \<and> best_params \<lparr> params = [], optim_configs = [(''W1'', \<lparr> learning_rate = Some 1, opt_rest = () \<rparr>)],
             epoch = 2, best_val_acc = 0, best_params = ([] :: real dict), early_stopping_counter = - 3,
             loss_history = [1, 1], val_loss_history = [1, 1], train_acc_history = [0, 0],
             val_acc_history = [0, 0] \<rparr> = []"
proof -
  have t: "train plain_cfg demo_env (reset plain_cfg \<lparr> learning_rate = Some 1, opt_rest = () \<rparr> [(''W1'', 5)])
     = Inr \<lparr> params = [], optim_configs = [(''W1'', \<lparr> learning_rate = Some 1, opt_rest = () \<rparr>)],
             epoch = 2, best_val_acc = 0, best_params = [], early_stopping_counter = - 3,
             loss_history = [1, 1], val_loss_history = [1, 1], train_acc_history = [0, 0],
             val_acc_history = [0, 0] \<rparr>"
    using plain_train by (simp add: plain_init_def)
  from no_positive_val_acc_empties_params[OF t] t show ?thesis by simp
qed

text \<open>
  Claim C4 at a failing input. The two-epoch run above evaluates the model at two checkpoints,
  both with validation accuracy 0. When the loop ends the model holds the trained parameter
  \<^verbatim>\<open>W1 = 3\<close>, the parameters of the checkpoint with the highest validation accuracy seen, yet
  \<^verbatim>\<open>train\<close> returns with an empty parameter store.
\<close>

theorem train_discards_all_params:
  "train_loop plain_cfg demo_env [0..<nat (num_iterations plain_cfg)] plain_init =
     Inr \<lparr> params = [(''W1'', 3)], optim_configs = [(''W1'', \<lparr> learning_rate = Some 1, opt_rest = () \<rparr>)],
           epoch = 2, best_val_acc = 0, best_params = [], early_stopping_counter = - 3,
           loss_history = [1, 1], val_loss_history = [1, 1], train_acc_history = [0, 0],
           val_acc_history = [0, 0] \<rparr>
   \<and> train plain_cfg demo_env plain_init =
     Inr \<lparr> params = [], optim_configs = [(''W1'', \<lparr> learning_rate = Some 1, opt_rest = () \<rparr>)],
           epoch = 2, best_val_acc = 0, best_params = [], early_stopping_counter = - 3,
           loss_history = [1, 1], val_loss_history = [1, 1], train_acc_history = [0, 0],
           val_acc_history = [0, 0] \<rparr>"
  by (simp only: plain_loop plain_train)

section \<open>Properties of the layers\<close>

subsection \<open>ReLU\<close>

lemma map_length_eqD:
  assumes "map length a = map length b"
  shows "length a = length b" and "\<And>i. i < length b \<Longrightarrow> length (a ! i) = length (b ! i)"
proof -
  from assms have "length (map length a) = length (map length b)" by simp
  then show l: "length a = length b" by simp
  fix i assume "i < length b"
  with l have "map length a ! i = length (a ! i)" "map length b ! i = length (b ! i)" by simp_all
  with assms show "length (a ! i) = length (b ! i)" by simp
qed

text \<open>
  Claim C8. For an upstream gradient and a cached input of the same shape, \<^verbatim>\<open>relu_backward\<close>
  returns a gradient of that shape which equals the upstream gradient wherever the input is
  strictly positive and is zero wherever the input is zero or negative.
\<close>

theorem relu_backward_gates:
  assumes "map length dout = map length x"
  shows "\<exists>dx. relu_backward dout x = Inr dx \<and> map length dx = map length x
           \<and> (\<forall>i<length x. \<forall>j<length (x ! i).
                 dx ! i ! j = (if 0 < x ! i ! j then dout ! i ! j else 0))"
proof -
  let ?dx = "map2 (map2 (\<lambda>d v. if v \<le> 0 then 0 else d)) dout x"
  have r: "relu_backward dout x = Inr ?dx" using assms by (simp add: relu_backward_def)
  have len: "length dout = length x" using assms by (rule map_length_eqD)
  have row: "length (dout ! i) = length (x ! i)" if "i < length x" for i
    using map_length_eqD(2)[OF assms that] .
  have sh: "map length ?dx = map length x"
    by (rule nth_equalityI) (simp_all add: len row)
  have el: "?dx ! i ! j = (if 0 < x ! i ! j then dout ! i ! j else 0)"
    if "i < length x" "j < length (x ! i)" for i j
    using that len row[OF that(1)] by simp
  from r sh el show ?thesis by blast
qed

theorem relu_backward_gates_witness:
  "map length [[5, 7, 9::real]] = map length [[- 1, 0, 2::real]]
   \<and> relu_backward [[5, 7, 9]] [[- 1, 0, 2]] = Inr [[0, 0, 9]]"
  using relu_backward_gates[of "[[5, 7, 9]]" "[[- 1, 0, 2]]"]
  by (simp add: relu_backward_def)

subsection \<open>Shapes\<close>

lemma ncols_has_shape: "has_shape n C x \<Longrightarrow> x \<noteq> [] \<Longrightarrow> ncols x = C"
  by (cases x) (simp_all add: has_shape_def ncols_def)

lemma has_shape_row: "has_shape n C x \<Longrightarrow> i < length x \<Longrightarrow> length (x ! i) = C"
  by (simp add: has_shape_def list_all_length)

subsection \<open>Softmax loss: rounding to binary64\<close>

lemma pow2_powr: "pow2 e = 2 powr real_of_int e"
  by (simp add: pow2_def powr_int)

lemma double_round_binade:
  assumes "pow2 e \<le> \<bar>r\<bar>" and "\<bar>r\<bar> < pow2 (e + 1)" and "- 1022 \<le> e"
    and "round_half_even (r / pow2 (e - 52)) = k"
    and "\<bar>of_int k * pow2 (e - 52)\<bar> < pow2 1024"
  shows "double_round r = Inr (of_int k * pow2 (e - 52))"
proof -
  have "0 < pow2 e" by (simp add: pow2_def)
  with assms(1) have pos: "0 < \<bar>r\<bar>" by linarith
  then have nz: "r \<noteq> 0" by auto
  have "\<lfloor>log 2 \<bar>r\<bar>\<rfloor> = e"
    using assms(1,2) pos by (subst floor_log_eq_powr_iff) (simp_all add: pow2_powr)
  then have "max \<lfloor>log 2 \<bar>r\<bar>\<rfloor> (- 1022) = e" using assms(3) by simp
  then show ?thesis using nz assms(4,5) by (simp add: double_round_def Let_def)
qed

lemma double_round_0: "double_round 0 = Inr 0"
  by (simp add: double_round_def)

lemma double_round_1: "double_round 1 = Inr 1"
  using double_round_binade[of 0 1 "2 ^ 52"]
  by (simp add: pow2_def round_half_even_def)

lemma double_round_2: "double_round 2 = Inr 2"
  using double_round_binade[of 1 2 "2 ^ 52"]
  by (simp add: pow2_def round_half_even_def)




lemma double_round_third_minus_one:
  "double_round (6004799503160661 / 18014398509481984 - 1) = Inr (- (6004799503160662 / 9007199254740992))"
  using double_round_binade[of "- 1" "6004799503160661 / 18014398509481984 - 1" "- 6004799503160662"]
  by (simp add: pow2_def round_half_even_def)


lemma double_round_third_minus_one':
  "double_round (- (12009599006321323 / 18014398509481984)) = Inr (- (6004799503160662 / 9007199254740992))"
  using double_round_third_minus_one by simp



lemmas softmax_eval = softmax_loss_def softmax_probs_def softmax_row_def softmax_dx_entry_def
  has_shape_def ncols_def index_pairs_def np_index_def upt_rec


subsection \<open>Softmax loss: overflow and underflow in binary64\<close>

text \<open>A positive number below half the smallest subnormal rounds to 0; a number of \<open>2 ^ 1024\<close> or more overflows.\<close>

lemma exp_1000_big: "2 ^ 1300 \<le> exp (1000::real)"
proof -
  have "(5 / 2 :: real) \<le> exp 1"
    using exp_lower_Taylor_quadratic[of "1::real"] by simp
  moreover have "(2::real) ^ 13 \<le> (5 / 2) ^ 10" by (simp add: power_divide)
  ultimately have "(2::real) ^ 13 \<le> exp 1 ^ 10"
    by (meson order_trans power_mono zero_le_numeral divide_nonneg_nonneg)
  then have "((2::real) ^ 13) ^ 100 \<le> (exp 1 ^ 10) ^ 100"
    by (intro power_mono) simp_all
  then have "(2::real) ^ (13 * 100) \<le> exp 1 ^ (10 * 100)"
    by (simp only: power_mult)
  moreover have "exp (1::real) ^ (10 * 100) = exp 1000"
    using exp_of_nat_mult[of "10 * 100" "1::real"] by simp
  ultimately show ?thesis by simp
qed

lemma double_round_underflow:
  assumes "0 < r" and "r < pow2 (- 1075)"
  shows "double_round r = Inr 0"
proof -
  have "log 2 r < - 1075"
    using assms by (simp add: log_less_iff pow2_powr)
  then have "\<lfloor>log 2 \<bar>r\<bar>\<rfloor> \<le> - 1022" using assms(1) by (simp add: floor_le_iff)
  then have m: "max \<lfloor>log 2 \<bar>r\<bar>\<rfloor> (- 1022) = - 1022" by simp
  have p: "pow2 (- 1075) = pow2 (- 1074) / 2" by (simp add: pow2_def)
  have q: "0 < pow2 (- 1074)" by (simp add: pow2_def)
  have v1: "0 < r / pow2 (- 1074)" using assms(1) q by simp
  have v2: "r / pow2 (- 1074) < 1 / 2" using assms(2) q unfolding p by (simp add: field_simps)
  from v2 have v3: "r / pow2 (- 1074) < 1" by linarith
  have f: "\<lfloor>r / pow2 (- 1074)\<rfloor> = 0" using v1 v3 by (simp add: floor_eq_iff)
  have "round_half_even (r / pow2 (- 1074)) = 0"
    using v2 by (simp add: round_half_even_def f)
  moreover have "0 < pow2 1024" by (simp add: pow2_def)
  ultimately show ?thesis using assms(1) m by (simp add: double_round_def Let_def)
qed

lemma pow2_mono: "a \<le> b \<Longrightarrow> pow2 a \<le> pow2 b"
  by (simp add: pow2_powr)

lemma double_round_overflow:
  assumes "pow2 1024 \<le> r"
  shows "double_round r = Inl OverflowWarning"
proof -
  have r0: "0 < r" using assms by (simp add: pow2_def) 
  define e where "e = \<lfloor>log 2 r\<rfloor>"
  have "1024 \<le> log 2 r" using assms r0 by (simp add: le_log_iff pow2_powr)
  then have e1: "1024 \<le> e" using r0 by (simp add: e_def le_floor_iff)
  then have m: "max e (- 1022) = e" by simp
  have "real_of_int e \<le> log 2 r" using r0 by (simp add: e_def)
  then have er: "pow2 e \<le> r" using r0 by (simp add: pow2_powr powr_le_iff)
  have u0: "0 < pow2 (e - 52)" by (simp add: pow2_def)
  have split: "pow2 e = 2 ^ 52 * pow2 (e - 52)"
    by (simp add: pow2_powr powr_diff)
  have "2 ^ 52 \<le> r / pow2 (e - 52)" using er u0 unfolding split by (simp add: field_simps)
  then have "(2 ^ 52 :: int) \<le> \<lfloor>r / pow2 (e - 52)\<rfloor>" by (simp add: le_floor_iff)
  moreover have "\<lfloor>r / pow2 (e - 52)\<rfloor> \<le> round_half_even (r / pow2 (e - 52))"
    by (simp add: round_half_even_def Let_def)
  ultimately have k: "(2 ^ 52 :: int) \<le> round_half_even (r / pow2 (e - 52))" by linarith
  then have "(2 ^ 52 :: real) \<le> of_int (round_half_even (r / pow2 (e - 52)))"
    by (metis of_int_le_iff of_int_numeral of_int_power)
  then have "2 ^ 52 * pow2 (e - 52) \<le> of_int (round_half_even (r / pow2 (e - 52))) * pow2 (e - 52)"
    using u0 by simp
  then have qe: "pow2 e \<le> of_int (round_half_even (r / pow2 (e - 52))) * pow2 (e - 52)"
    unfolding split .
  have "pow2 1024 \<le> pow2 e" using e1 by (rule pow2_mono)
  with qe have "pow2 1024 \<le> \<bar>of_int (round_half_even (r / pow2 (e - 52))) * pow2 (e - 52)\<bar>"
    by linarith
  then show ?thesis using r0 m unfolding e_def by (simp add: double_round_def Let_def)
qed

lemma pow2_nonneg: "0 \<le> e \<Longrightarrow> pow2 e = 2 ^ nat e"
  by (simp add: pow2_def)

lemma exp_1000_overflows: "a_exp double_arith 1000 = Inl OverflowWarning"
proof -
  have "pow2 1024 \<le> pow2 1300" by (rule pow2_mono) simp
  also have "pow2 1300 = 2 ^ 1300" by (simp only: pow2_nonneg nat_numeral zero_le_numeral)
  also have "\<dots> \<le> exp (1000::real)" by (rule exp_1000_big)
  finally have "double_round (exp 1000) = Inl OverflowWarning" by (rule double_round_overflow)
  then show ?thesis by (simp add: double_arith_def)
qed

lemma exp_minus_1000_underflows: "a_exp double_arith (- 1000) = Inr 0"
proof -
  have a: "pow2 1075 \<le> pow2 1300" by (rule pow2_mono) simp
  have b: "pow2 1300 = 2 ^ 1300" by (simp only: pow2_nonneg nat_numeral zero_le_numeral)
  have c: "0 < pow2 1075" by (simp add: pow2_def)
  have d: "pow2 (- 1075) = 1 / pow2 1075" by (simp add: pow2_def)
  from a b exp_1000_big have "pow2 1075 \<le> exp (1000::real)" by linarith
  moreover have "pow2 1075 \<noteq> exp (1000::real)"
  proof
    assume "pow2 1075 = exp (1000::real)"
    then have "pow2 1075 = pow2 1300" using a b exp_1000_big by linarith
    then show False by (simp add: pow2_powr)
  qed
  ultimately have "pow2 1075 < exp (1000::real)" by linarith
  then have "1 / exp (1000::real) < 1 / pow2 1075" using c by (simp add: frac_less2)
  then have "exp (- 1000 :: real) < pow2 (- 1075)" unfolding d by (simp add: exp_minus inverse_eq_divide)
  then have "double_round (exp (- 1000)) = Inr 0" by (intro double_round_underflow) simp_all
  then show ?thesis by (simp add: double_arith_def)
qed

lemma double_round_half: "double_round (1 / 2) = Inr (1 / 2)"
  using double_round_binade[of "- 1" "1 / 2" "2 ^ 52"]
  by (simp add: pow2_def round_half_even_def)

lemma double_round_minus_1: "double_round (- 1) = Inr (- 1)"
  using double_round_binade[of 0 "- 1" "- (2 ^ 52)"]
  by (simp add: pow2_def round_half_even_def)

lemma double_round_minus_1000: "double_round (- 1000) = Inr (- 1000)"
  using double_round_binade[of 9 "- 1000" "- (1000 * 2 ^ 43)"]
  by (simp add: pow2_def round_half_even_def)

lemma double_round_exp_minus_1000: "double_round (exp (- 1000)) = Inr 0"
  using exp_minus_1000_underflows by (simp add: double_arith_def)

text \<open>
  Subtracting the row maximum keeps the exponentials in range: for the row \<^verbatim>\<open>[1000, 1000]\<close> the
  exponential of a score overflows (\<open>exp_1000_overflows\<close>), the exponentials of the shifted scores
  are 1 and the probabilities are finite.
\<close>

lemma softmax_row_shifted:
  "softmax_row double_arith [1000, 1000] = Inr [1 / 2, 1 / 2]"
  by (simp add: softmax_row_def double_arith_def double_round_0 double_round_1 double_round_2
        double_round_half)

text \<open>
  The loss need not be finite: for the scores \<^verbatim>\<open>[[0, -1000]]\<close> with label 1 the exponential of
  the shifted score underflows to 0, the probability of the true class is 0 and its logarithm
  is \<^verbatim>\<open>-inf\<close>, while \<^verbatim>\<open>dx\<close> is finite.
\<close>

lemma softmax_loss_infinite:
  "softmax_loss double_arith [[0, - 1000]] [1] = Inr (Inl DivideByZeroWarning, [[1, - 1]])"
  by (simp add: softmax_eval softmax_data_loss_def double_arith_def double_round_0 double_round_1
        double_round_minus_1 double_round_minus_1000 double_round_exp_minus_1000)

subsection \<open>Softmax loss: what it computes in any arithmetic\<close>











lemma sum_list_upt: "sum_list (map f [0..<n]) = (\<Sum>i<n. (f i :: real))"
  by (simp add: interv_sum_list_conv_sum_set_nat atLeast0LessThan)



subsection \<open>Softmax loss: exact arithmetic\<close>












subsection \<open>Softmax loss: the claim\<close>






subsection \<open>Batch normalization\<close>

lemma rowwise_nth:
  "i < length m \<Longrightarrow> j < length (m ! i) \<Longrightarrow> j < length v \<Longrightarrow> rowwise f m v ! i ! j = f (m ! i ! j) (v ! j)"
  by (simp add: rowwise_def)

lemma rowwise_shape: "has_shape n d m \<Longrightarrow> length v = d \<Longrightarrow> has_shape n d (rowwise f m v)"
  by (simp add: rowwise_def has_shape_def list_all_iff)

lemma batchnorm_forward_test:
  assumes "map_of bn_param ''mode'' = Some (Str ''test'')"
    and "dict_get bn_param ''running_mean'' (Vec (replicate (ncols x) 0)) = Vec rm"
    and "dict_get bn_param ''running_var'' (Vec (replicate (ncols x) 0)) = Vec rv"
  shows "batchnorm_forward x g b bn_param =
           (case batchnorm_test x g b rm rv of
              Inl err \<Rightarrow> Inl err
            | Inr out \<Rightarrow> Inr (out, None, AList.update ''running_var'' (Vec rv)
                                           (AList.update ''running_mean'' (Vec rm) bn_param)))"
  using assms by (simp add: batchnorm_forward_def Let_def)

lemma batchnorm_test_zero_var:
  assumes "x \<noteq> []" and "has_shape (length x) D x" and "length g = D" and "length b = D"
    and "length rm = D" and "length rv = D"
    and "list_all (\<lambda>v. 0 \<le> v) rv" and "list_ex (\<lambda>v. v = 0) rv"
  shows "batchnorm_test x g b rm rv = Inl DivideByZeroWarning"
proof -
  have nc: "ncols x = D" using assms(1,2) by (rule ncols_has_shape[rotated])
  have "\<not> list_ex (\<lambda>v. v < 0) rv" using assms(7) by (auto simp: list_all_iff list_ex_iff)
  moreover have "list_ex (\<lambda>v. sqrt v = 0) rv" using assms(8) by (simp add: list_ex_iff)
  ultimately show ?thesis using assms(1-6) nc by (simp add: batchnorm_test_def Let_def)
qed

lemma batchnorm_test_pos_var:
  assumes "x \<noteq> []" and "has_shape (length x) D x" and "length g = D" and "length b = D"
    and "length rm = D" and "length rv = D"
    and "list_all (\<lambda>v. 0 \<le> v) rv" and "\<not> list_ex (\<lambda>v. v = 0) rv"
  shows "\<exists>out. batchnorm_test x g b rm rv = Inr out \<and>
           (\<forall>i<length x. \<forall>j<D. out ! i ! j = (x ! i ! j - rm ! j) / sqrt (rv ! j) * g ! j + b ! j)"
proof -
  let ?out = "rowwise (+) (rowwise (*) (rowwise (\<lambda>v d. v / d) (rowwise (-) x rm) (map sqrt rv)) g) b"
  have nc: "ncols x = D" using assms(1,2) by (rule ncols_has_shape[rotated])
  have "\<not> list_ex (\<lambda>v. v < 0) rv" using assms(7) by (auto simp: list_all_iff list_ex_iff)
  moreover have "\<not> list_ex (\<lambda>v. sqrt v = 0) rv" using assms(8) by (simp add: list_ex_iff)
  ultimately have r: "batchnorm_test x g b rm rv = Inr ?out"
    using assms(1-6) nc by (simp add: batchnorm_test_def Let_def)
  have el: "?out ! i ! j = (x ! i ! j - rm ! j) / sqrt (rv ! j) * g ! j + b ! j"
    if "i < length x" "j < D" for i j
  proof -
    have "length (x ! i) = D" using has_shape_row[OF assms(2) that(1)] .
    then show ?thesis using that assms(3-6) by (simp add: rowwise_def)
  qed
  from r el show ?thesis by blast
qed

text \<open>
  Claim C10. At test time \<^verbatim>\<open>batchnorm_forward\<close> divides by \<^verbatim>\<open>sqrt(running_var)\<close>; the
  \<^verbatim>\<open>eps\<close> entry of \<^verbatim>\<open>bn_param\<close> plays no part. Whenever a feature's running variance is
  zero, a non-empty batch is divided by zero; this is the case for every feature when
  \<^verbatim>\<open>bn_param\<close> has no \<^verbatim>\<open>running_var\<close> entry and the default array of zeros is used.
  Without a zero (and without negative entries) the output is
  \<^verbatim>\<open>(x - running_mean) / sqrt(running_var) * gamma + beta\<close>.
\<close>

theorem batchnorm_test_divides_unguarded:
  assumes "map_of bn_param ''mode'' = Some (Str ''test'')"
    and "x \<noteq> []" and "has_shape (length x) D x" and "length g = D" and "length b = D"
    and "dict_get bn_param ''running_mean'' (Vec (replicate D 0)) = Vec rm" and "length rm = D"
    and "dict_get bn_param ''running_var'' (Vec (replicate D 0)) = Vec rv" and "length rv = D"
    and "list_all (\<lambda>v. 0 \<le> v) rv"
  shows "(list_ex (\<lambda>v. v = 0) rv \<longrightarrow> batchnorm_forward x g b bn_param = Inl DivideByZeroWarning)
       \<and> (\<not> list_ex (\<lambda>v. v = 0) rv \<longrightarrow>
            (\<exists>out bn_param'. batchnorm_forward x g b bn_param = Inr (out, None, bn_param') \<and>
               (\<forall>i<length x. \<forall>j<D.
                  out ! i ! j = (x ! i ! j - rm ! j) / sqrt (rv ! j) * g ! j + b ! j)))
       \<and> (map_of bn_param ''running_var'' = None \<and> 0 < D \<longrightarrow>
            batchnorm_forward x g b bn_param = Inl DivideByZeroWarning)"
proof -
  have nc: "ncols x = D" using assms(2,3) by (rule ncols_has_shape[rotated])
  note fw = batchnorm_forward_test[of bn_param x rm rv g b, unfolded nc, OF assms(1,6,8)]
  have z: "batchnorm_forward x g b bn_param = Inl DivideByZeroWarning" if "list_ex (\<lambda>v. v = 0) rv"
    using fw batchnorm_test_zero_var[OF assms(2,3,4,5,7,9,10) that] by simp
  have p: "\<exists>out bn_param'. batchnorm_forward x g b bn_param = Inr (out, None, bn_param') \<and>
               (\<forall>i<length x. \<forall>j<D.
                  out ! i ! j = (x ! i ! j - rm ! j) / sqrt (rv ! j) * g ! j + b ! j)"
    if "\<not> list_ex (\<lambda>v. v = 0) rv"
    using fw batchnorm_test_pos_var[OF assms(2,3,4,5,7,9,10) that] by auto
  have d: "list_ex (\<lambda>v. v = 0) rv" if "map_of bn_param ''running_var'' = None" "0 < D"
  proof -
    from that(1) assms(8) have "rv = replicate D 0" by (simp add: dict_get_def)
    with that(2) show ?thesis by (cases D) simp_all
  qed
  from z p d show ?thesis by blast
qed

text \<open>
  What the backward pass sums for its two parameter gradients, for every cache: \<^verbatim>\<open>dbeta\<close>
  is the column sum of \<^verbatim>\<open>dout\<close>, and \<^verbatim>\<open>dgamma\<close> is the column sum of \<^verbatim>\<open>dout\<close> times
  the first entry of the cache.
\<close>

lemma batchnorm_backward_sums:
  assumes "batchnorm_backward dout (Some c) = Inr (dx, dgamma, dbeta)"
  shows "dbeta = colsum (ncols dout) dout"
    and "dgamma = colsum (ncols dout) (elementwise (*) dout (c_xout c))"
  using assms by (auto simp: batchnorm_backward_def Let_def split: if_splits)

lemma sqrt4: "sqrt 4 = 2"
  using real_sqrt_abs[of 2] by simp

lemma bn_train_forward:
  "batchnorm_forward [[1], [- 1]] [2] [1] bn_train_param =
     Inr ([[2], [0]], Some bn_train_cache,
          [(''mode'', Str ''train''), (''eps'', Num 3), (''running_mean'', Vec [0]),
           (''running_var'', Vec [1 / 10])])"
  by (simp add: batchnorm_forward_def bn_train_param_def dict_get_def ncols_def Let_def
        batchnorm_train_def has_shape_def colsum_def rowwise_def bn_train_cache_def sqrt4)

lemma bn_train_backward:
  "batchnorm_backward [[1], [0]] (Some bn_train_cache) = Inr ([[3 / 8], [- 3 / 8]], [2], [1])"
  by (simp add: batchnorm_backward_def bn_train_cache_def ncols_def Let_def has_shape_def
        colsum_def rowwise_def elementwise_def sqrt4 numeral_2_eq_2)

text \<open>
  Claim C2 at a failing input. The backward pass unpacks the first entry of the cache, the
  layer's output \<^verbatim>\<open>gamma * x_norm + beta\<close>, as \<^verbatim>\<open>xout\<close> and computes
  \<^verbatim>\<open>dgamma = np.sum(dout * xout, axis=0)\<close>. For the cache of the training-time call above and
  \<^verbatim>\<open>dout = [[1], [0]]\<close> it returns \<^verbatim>\<open>dgamma = [2]\<close>, whereas the column sum of
  \<^verbatim>\<open>dout * x_norm\<close>, the gradient with respect to \<^verbatim>\<open>gamma\<close>, is \<^verbatim>\<open>[1/2]\<close>.
\<close>

theorem batchnorm_backward_dgamma_uses_output:
  "batchnorm_forward [[1], [- 1]] [2] [1] bn_train_param =
     Inr ([[2], [0]], Some bn_train_cache,
          [(''mode'', Str ''train''), (''eps'', Num 3), (''running_mean'', Vec [0]),
           (''running_var'', Vec [1 / 10])])
   \<and> batchnorm_backward [[1], [0]] (Some bn_train_cache) = Inr ([[3 / 8], [- 3 / 8]], [2], [1])
   \<and> colsum 1 (elementwise (*) [[1], [0]] (c_x_norm bn_train_cache)) = [1 / 2]"
  by (simp add: bn_train_forward bn_train_backward)
     (simp add: colsum_def elementwise_def bn_train_cache_def)

theorem batchnorm_test_divides_unguarded_witness:
  "map_of bn_test_param ''mode'' = Some (Str ''test'')
   \<and> [[1, 2::real]] \<noteq> [] \<and> has_shape (length [[1, 2::real]]) 2 [[1, 2]]
   \<and> dict_get bn_test_param ''running_var'' (Vec (replicate 2 0)) = Vec [0, 0]
   \<and> list_all (\<lambda>v. 0 \<le> v) [0, 0::real]
   \<and> map_of bn_test_param ''running_var'' = None
   \<and> batchnorm_forward [[1, 2]] [1, 1] [0, 0] bn_test_param = Inl DivideByZeroWarning"
proof -
  have 1: "map_of bn_test_param ''mode'' = Some (Str ''test'')" by (simp add: bn_test_param_def)
  have 2: "[[1, 2::real]] \<noteq> []" by simp
  have 3: "has_shape (length [[1, 2::real]]) 2 [[1, 2]]" by (simp add: has_shape_def)
  have 4: "length [1, 1::real] = 2" "length [0, 0::real] = 2" by simp_all
  have 5: "dict_get bn_test_param ''running_mean'' (Vec (replicate 2 0)) = Vec [0, 0]"
    by (simp add: dict_get_def bn_test_param_def numeral_2_eq_2)
  have 6: "dict_get bn_test_param ''running_var'' (Vec (replicate 2 0)) = Vec [0, 0]"
    by (simp add: dict_get_def bn_test_param_def numeral_2_eq_2)
  have 7: "list_all (\<lambda>v. 0 \<le> v) [0, 0::real]" by simp
  have 8: "map_of bn_test_param ''running_var'' = None" by (simp add: bn_test_param_def)
  from batchnorm_test_divides_unguarded[OF 1 2 3 4(1) 4(2) 5 4(2) 6 4(2) 7] 1 2 3 6 7 8
  show ?thesis by simp
qed

section \<open>Properties of the networks\<close>

subsection \<open>Keys of the gradient dictionary\<close>

lemma keys_update: "keys (AList.update k v d) = insert k (keys d)"
  by (simp add: keys_def dom_update)

lemma keys_Nil: "keys [] = {}"
  by (simp add: keys_def)

lemma init_hidden_keys:
  "keys (snd (init_hidden normal ubn i n hs ps)) =
     keys ps \<union> (\<Union>k\<in>{i..<i + length hs}. hidden_layer_keys ubn (k + 1))"
proof (induction hs arbitrary: i n ps)
  case Nil
  then show ?case by simp
next
  case (Cons h hs)
  have split: "{i..<i + length (h # hs)} = insert i {i + 1..<i + 1 + length hs}" by auto
  show ?case
    unfolding split
    by (simp add: Cons.IH Let_def keys_update hidden_layer_keys_def) blast
qed

lemma backward_batchnorm_keys:
  "backward_batchnorm net i c dx g = Inr (dx', g') \<Longrightarrow>
     keys g' = keys g \<union> (if use_batchnorm net then {pname ''gamma'' (i + 1), pname ''beta'' (i + 1)} else {})"
  by (auto simp: backward_batchnorm_def keys_update split: if_splits option.splits sum.splits)

lemma fc_backward_keys:
  "fc_backward net caches is (dx, g) = Inr (dx', g') \<Longrightarrow>
     keys g' = keys g \<union> (\<Union>i\<in>set is. hidden_layer_keys (use_batchnorm net) (i + 1))"
proof (induction "is" arbitrary: dx g)
  case Nil
  then show ?case by simp
next
  case (Cons i "is")
  from Cons.prems obtain dx3 g1 dx4 dW db W where
    bn: "backward_batchnorm net i (caches ! i) dx3 g = Inr (dx4, g1)"
    and rest: "fc_backward net caches is
             (dW, AList.update (pname ''b'' (i + 1)) (V db)
                     (AList.update (pname ''W'' (i + 1)) (M W) g1)) = Inr (dx', g')"
    by (auto split: if_splits sum.splits prod.splits)
  from Cons.IH[OF rest] backward_batchnorm_keys[OF bn]
  show ?case by (auto simp: keys_update hidden_layer_keys_def)
qed

lemma fc_init_shape:
  assumes "fc_init normal hidden_dims input_dim num_classes dropout ubn r weight_scale seed = Inr net0"
  shows "use_batchnorm net0 = ubn" and "num_layers net0 = 1 + length hidden_dims"
    and "keys (net_params net0) =
           insert (pname ''W'' (1 + length hidden_dims)) (insert (pname ''b'' (1 + length hidden_dims))
             (\<Union>k\<in>{0..<length hidden_dims}. hidden_layer_keys ubn (k + 1)))"
proof -
  obtain n ps where ih: "init_hidden normal ubn 0 input_dim hidden_dims [] = (n, ps)"
    by (cases "init_hidden normal ubn 0 input_dim hidden_dims []")
  have k: "keys ps = (\<Union>k\<in>{0..<length hidden_dims}. hidden_layer_keys ubn (k + 1))"
    using init_hidden_keys[of normal ubn 0 input_dim hidden_dims "[]"] ih by (simp add: keys_Nil)
  from assms ih have net0: "net0 = \<lparr> use_batchnorm = ubn, use_dropout = (dropout > 0), reg = r,
       num_layers = 1 + length hidden_dims,
       net_params = AList.update (pname ''b'' (1 + length hidden_dims)) (V (replicate num_classes 0))
                     (AList.update (pname ''W'' (1 + length hidden_dims)) (M (normal (length hidden_dims))) ps),
       dropout_param = dropout_param net0, bn_params = bn_params net0 \<rparr>"
    by (auto simp: fc_init_def Let_def split: if_splits)
  show "use_batchnorm net0 = ubn" by (subst net0) simp
  show "num_layers net0 = 1 + length hidden_dims" by (subst net0) simp
  have "keys (net_params net0) = insert (pname ''b'' (1 + length hidden_dims))
          (insert (pname ''W'' (1 + length hidden_dims)) (keys ps))"
    by (subst net0) (simp add: keys_update)
  with k show "keys (net_params net0) =
           insert (pname ''W'' (1 + length hidden_dims)) (insert (pname ''b'' (1 + length hidden_dims))
             (\<Union>k\<in>{0..<length hidden_dims}. hidden_layer_keys ubn (k + 1)))"
    by auto
qed

lemma fc_loss_grads_keys:
  assumes "fc_loss net X (Some y) rand = Inr (LossGrads l grads, net')"
  shows "keys grads =
           insert (pname ''W'' (num_layers net)) (insert (pname ''b'' (num_layers net))
             (\<Union>k\<in>{0..<num_layers net - 1}. hidden_layer_keys (use_batchnorm net) (k + 1)))"
proof -
  let ?net = "set_modes ''train'' net"
  have s: "num_layers ?net = num_layers net" "use_batchnorm ?net = use_batchnorm net"
    by (simp_all add: set_modes_def)
  from assms obtain caches dx dW db dx0 where
    "fc_backward ?net caches (rev [0..<num_layers ?net - 1])
                      (dx, AList.update (pname ''b'' (num_layers ?net)) (V db)
                             (AList.update (pname ''W'' (num_layers ?net)) (M dW) [])) = Inr (dx0, grads)"
    by (auto simp: fc_loss_def Let_def split: sum.splits prod.splits)
  from fc_backward_keys[OF this] show ?thesis
    by (auto simp: s keys_def)
qed

lemma two_layer_init_keys:
  "two_layer_init n1 n2 h c ws r = Inr net0 \<Longrightarrow> keys (tl_params net0) = {''W1'', ''b1'', ''W2'', ''b2''}"
  by (auto simp: two_layer_init_def keys_def split: if_splits)

lemma two_layer_loss_grads_keys:
  "two_layer_loss net X (Some y) = Inr (LossGrads l grads) \<Longrightarrow> keys grads = {''W1'', ''b1'', ''W2'', ''b2''}"
  by (auto simp: two_layer_loss_def keys_def split: sum.splits prod.splits)

text \<open>
  Claim C3. For a \<^verbatim>\<open>TwoLayerNet\<close> and for a \<^verbatim>\<open>FullyConnectedNet\<close> whose parameter store has
  the keys that \<^verbatim>\<open>__init__\<close> gave it (and, for the latter, whose depth and batch normalization
  flag are those of \<^verbatim>\<open>__init__\<close>), the gradient dictionary that a training-time call of
  \<^verbatim>\<open>loss\<close> returns has exactly the keys of the parameter store, including the
  \<^verbatim>\<open>gamma\<close> and \<^verbatim>\<open>beta\<close> keys of the hidden layers when batch normalization is used.
\<close>

theorem grads_keys_match_params:
  "(two_layer_init normal1 normal2 hidden_dim classes scale r2 = Inr tnet0
      \<and> keys (tl_params tnet) = keys (tl_params tnet0)
      \<and> two_layer_loss tnet X2 (Some y2) = Inr (LossGrads l2 grads2)
      \<longrightarrow> keys grads2 = keys (tl_params tnet))
   \<and> (fc_init normal hidden_dims input_dim num_classes dropout ubn r weight_scale seed = Inr net0
      \<and> use_batchnorm net = use_batchnorm net0 \<and> num_layers net = num_layers net0
      \<and> keys (net_params net) = keys (net_params net0)
      \<and> fc_loss net X (Some y) rand = Inr (LossGrads l grads, net')
      \<longrightarrow> keys grads = keys (net_params net))"
proof (intro conjI impI)
  assume "two_layer_init normal1 normal2 hidden_dim classes scale r2 = Inr tnet0
      \<and> keys (tl_params tnet) = keys (tl_params tnet0)
      \<and> two_layer_loss tnet X2 (Some y2) = Inr (LossGrads l2 grads2)"
  then show "keys grads2 = keys (tl_params tnet)"
    using two_layer_init_keys two_layer_loss_grads_keys by metis
next
  assume a: "fc_init normal hidden_dims input_dim num_classes dropout ubn r weight_scale seed = Inr net0
      \<and> use_batchnorm net = use_batchnorm net0 \<and> num_layers net = num_layers net0
      \<and> keys (net_params net) = keys (net_params net0)
      \<and> fc_loss net X (Some y) rand = Inr (LossGrads l grads, net')"
  then have i: "fc_init normal hidden_dims input_dim num_classes dropout ubn r weight_scale seed = Inr net0"
    and l: "fc_loss net X (Some y) rand = Inr (LossGrads l grads, net')" by simp_all
  from fc_loss_grads_keys[OF l] fc_init_shape[OF i] a
  show "keys grads = keys (net_params net)" by simp
qed

subsection \<open>The two concrete networks, evaluated\<close>

lemmas eval_defs = upt_rec pname_def digit_char_def get_matrix_def get_vector_def
      affine_forward_def has_shape_def forward_batchnorm_def batchnorm_forward_def dict_get_def
      ncols_def Let_def batchnorm_train_def colsum_def rowwise_def relu_forward_def
      forward_dropout_def dropout_forward_def sum_squares_def elementwise_def
      softmax_loss_def softmax_probs_def softmax_row_def softmax_data_loss_def
      softmax_dx_entry_def finite_loss_def exact_arith_def index_pairs_def np_index_def
      affine_backward_def
      backward_dropout_def dropout_backward_def relu_backward_def backward_batchnorm_def
      batchnorm_backward_def add_reg_def

lemma demo_net_init: "fc_init demo_normal [1] 1 2 (1 / 2) True 0 (1 / 100) None = Inr demo_net"
  by (simp add: fc_init_def Let_def pname_def digit_char_def demo_normal_def upt_rec demo_net_def
        numeral_2_eq_2)

lemma demo_set_modes_test:
  "set_modes ''test'' demo_net =
     demo_net\<lparr> dropout_param := Some [(''mode'', Str ''test''), (''p'', Num (1 / 2))],
               bn_params := [[(''mode'', Str ''train''), (''test'', Str ''test'')]] \<rparr>"
  by (simp add: set_modes_def demo_net_def)

lemma demo_loss_test:
  "fc_loss demo_net [[1], [3]] None demo_rand =
     Inr (Scores [[0, 0], [0, 0]],
          demo_net\<lparr> dropout_param := Some [(''mode'', Str ''test''), (''p'', Num (1 / 2))],
                    bn_params := [[(''mode'', Str ''train''), (''test'', Str ''test''),
                                   (''running_mean'', Vec [1 / 5]), (''running_var'', Vec [1 / 10])]] \<rparr>)"
  by (simp add: fc_loss_def demo_set_modes_test)
     (simp add: demo_net_def eval_defs)

lemma demo_loss_train:
  "fc_loss demo_net [[1], [3]] (Some [0, 1]) demo_rand =
     Inr (LossGrads (- ln (1 / 2))
            [(''W2'', M [[1 / (2 * sqrt (100001 / 100000)), - (1 / (2 * sqrt (100001 / 100000)))]]),
             (''b2'', V [0, 0]), (''gamma1'', V [0]), (''beta1'', V [0]),
             (''W1'', M [[0]]), (''b1'', V [0])],
          demo_net\<lparr> bn_params := [[(''mode'', Str ''train''), (''train'', Str ''train''),
                                   (''running_mean'', Vec [1 / 5]), (''running_var'', Vec [1 / 10])]] \<rparr>)"
  by (simp add: fc_loss_def set_modes_def Let_def)
     (simp add: demo_net_def demo_rand_def eval_defs)

lemma demo_two_layer_init:
  "two_layer_init [[1]] [[0, 0]] 1 2 (1 / 1000) 0 = Inr demo_two_layer_net"
  by (simp add: two_layer_init_def demo_two_layer_net_def numeral_2_eq_2)

lemma demo_two_layer_loss:
  "two_layer_loss demo_two_layer_net [[1], [3]] (Some [0, 1]) =
     Inr (LossGrads (- ln (1 / 2))
            [(''W1'', M [[0]]), (''W2'', M [[1 / 2, - 1 / 2]]), (''b1'', V [0]), (''b2'', V [0, 0])])"
  by (simp add: two_layer_loss_def demo_two_layer_net_def affine_relu_forward_def
        affine_relu_backward_def eval_defs)

text \<open>
  Claim C1 at a failing input. A call of \<^verbatim>\<open>loss\<close> without labels on the freshly constructed
  network above sets the mode of the dropout dictionary to \<^verbatim>\<open>'test'\<close>, but in the batch
  normalization dictionary it writes a new key \<^verbatim>\<open>'test'\<close> and leaves
  \<^verbatim>\<open>'mode'\<close> at \<^verbatim>\<open>'train'\<close>. The batch normalization layer therefore runs its
  training branch during this test-time call: it normalizes with the statistics of the batch
  and moves the running mean and variance (to 1/5 and 1/10).
\<close>

theorem loss_leaves_batchnorm_mode:
  "fc_init demo_normal [1] 1 2 (1 / 2) True 0 (1 / 100) None = Inr demo_net
   \<and> set_modes ''test'' demo_net =
       demo_net\<lparr> dropout_param := Some [(''mode'', Str ''test''), (''p'', Num (1 / 2))],
                 bn_params := [[(''mode'', Str ''train''), (''test'', Str ''test'')]] \<rparr>
   \<and> fc_loss demo_net [[1], [3]] None demo_rand =
       Inr (Scores [[0, 0], [0, 0]],
            demo_net\<lparr> dropout_param := Some [(''mode'', Str ''test''), (''p'', Num (1 / 2))],
                      bn_params := [[(''mode'', Str ''train''), (''test'', Str ''test''),
                                     (''running_mean'', Vec [1 / 5]), (''running_var'', Vec [1 / 10])]] \<rparr>)"
  by (simp only: demo_net_init demo_set_modes_test demo_loss_test simp_thms)

theorem grads_keys_match_params_witness:
  "two_layer_init [[1]] [[0, 0]] 1 2 (1 / 1000) 0 = Inr demo_two_layer_net
   \<and> two_layer_loss demo_two_layer_net [[1], [3]] (Some [0, 1]) =
       Inr (LossGrads (- ln (1 / 2))
              [(''W1'', M [[0]]), (''W2'', M [[1 / 2, - 1 / 2]]), (''b1'', V [0]), (''b2'', V [0, 0])])
   \<and> keys [(''W1'', M [[0]]), (''W2'', M [[1 / 2, - 1 / 2]]), (''b1'', V [0]), (''b2'', V [0, 0])]
       = keys (tl_params demo_two_layer_net)
   \<and> fc_init demo_normal [1] 1 2 (1 / 2) True 0 (1 / 100) None = Inr demo_net
   \<and> fc_loss demo_net [[1], [3]] (Some [0, 1]) demo_rand =
       Inr (LossGrads (- ln (1 / 2))
              [(''W2'', M [[1 / (2 * sqrt (100001 / 100000)), - (1 / (2 * sqrt (100001 / 100000)))]]),
               (''b2'', V [0, 0]), (''gamma1'', V [0]), (''beta1'', V [0]),
               (''W1'', M [[0]]), (''b1'', V [0])],
            demo_net\<lparr> bn_params := [[(''mode'', Str ''train''), (''train'', Str ''train''),
                                     (''running_mean'', Vec [1 / 5]), (''running_var'', Vec [1 / 10])]] \<rparr>)
   \<and> keys [(''W2'', M [[1 / (2 * sqrt (100001 / 100000)), - (1 / (2 * sqrt (100001 / 100000)))]]),
               (''b2'', V [0, 0]), (''gamma1'', V [0]), (''beta1'', V [0]),
               (''W1'', M [[0]]), (''b1'', V [0])]
       = keys (net_params demo_net)"
proof -
  note t = grads_keys_match_params[of "[[1]]" "[[0, 0]]" 1 2 "1 / 1000" 0 demo_two_layer_net
      demo_two_layer_net "[[1], [3]]" "[0, 1]" _ _
      demo_normal "[1]" 1 2 "1 / 2" True 0 "1 / 100" None demo_net demo_net "[[1], [3]]" "[0, 1]"
      demo_rand]
  from t[THEN conjunct1, rule_format] demo_two_layer_init demo_two_layer_loss
  have a: "keys [(''W1'', M [[0]]), (''W2'', M [[1 / 2, - 1 / 2]]), (''b1'', V [0]), (''b2'', V [0, 0])]
       = keys (tl_params demo_two_layer_net)" by simp
  from t[THEN conjunct2, rule_format] demo_net_init demo_loss_train
  have b: "keys [(''W2'', M [[1 / (2 * sqrt (100001 / 100000)), - (1 / (2 * sqrt (100001 / 100000)))]]),
               (''b2'', V [0, 0]), (''gamma1'', V [0]), (''beta1'', V [0]),
               (''W1'', M [[0]]), (''b1'', V [0])]
       = keys (net_params demo_net)" by simp
  from a b demo_two_layer_init demo_two_layer_loss demo_net_init demo_loss_train
  show ?thesis by simp
qed

end
